theory Spec2Isabelle
  imports Complex_Main
begin

section \<open>Data model\<close>

text \<open>
  JavaScript numbers are modelled as real numbers: the arithmetic of the two scripts
  (scaling by constants, one addition, a square root, sine and cosine) is read over
  the reals, without rounding. Object references are natural numbers; every store is a
  total function from references to objects, as a JavaScript reference always denotes
  an object.
\<close>

type_synonym ref = nat

datatype vec3 = Vec3 (vec_x: real) (vec_y: real) (vec_z: real)

datatype quaternion = Quaternion (quat_x: real) (quat_y: real) (quat_z: real) (quat_w: real)

datatype geometry =
    SphereGeometry real nat nat
  | BoxGeometry real real real
  | CylinderGeometry real real real nat
  | PlaneGeometry real real

datatype shape =
    Sphere real
  | Box vec3
  | Cylinder real real real nat
  | Plane

datatype material = Material string

text \<open>The functions of the script that are registered as event listeners.\<close>

datatype listener = PlayHitSound

text \<open>A \<open>THREE.Mesh\<close>: the visual proxy.\<close>

record Mesh =
  mesh_geometry :: geometry
  mesh_castShadow :: bool
  mesh_scale :: vec3
  mesh_position :: vec3
  mesh_quaternion :: quaternion

text \<open>
  A \<open>CANNON.Body\<close>: the rigid body. \<open>body_listeners\<close> holds the listeners registered
  for the \<open>collide\<close> event, the only event type the scripts use.
\<close>

record Body =
  body_mass :: real
  body_position :: vec3
  body_quaternion :: quaternion
  body_velocity :: vec3
  body_angularVelocity :: vec3
  body_shapes :: "shape list"
  body_material :: "material option"
  body_listeners :: "listener list"

text \<open>An entry of \<open>objectsToUpdate\<close>: \<open>{ mesh, body }\<close>, two references.\<close>

record tracked =
  mesh :: ref
  body :: ref

text \<open>
  The settings object of the launch variant, bound to the controls of the panel.
\<close>

record settings =
  angle :: real
  velocity :: real
  mass :: real
  launchHeight :: real
  airResistance :: bool

text \<open>
  The \<open>Audio\<close> element \<open>hitSound\<close>. \<open>play_calls\<close> counts the calls of \<open>play()\<close>.
\<close>

record Audio =
  volume :: real
  currentTime :: real
  paused :: bool
  play_calls :: nat

text \<open>
  What the two libraries own: the stores of meshes and bodies with their allocation
  counters, the children of \<open>scene\<close>, and the \<open>CANNON.World\<close> (its list of bodies, the
  time accumulated by \<open>step\<close> and not yet simulated, and the record of the sub-steps
  taken so far, each with its size).
\<close>

record sim =
  meshes :: "ref \<Rightarrow> Mesh"
  bodies :: "ref \<Rightarrow> Body"
  next_mesh :: ref
  next_body :: ref
  scene_children :: "ref list"
  world_bodies :: "ref list"
  world_accumulator :: real
  world_substeps :: "real list"

text \<open>
  What one sub-step of the integrator gives a body: "the World is the sole mutator of
  position/orientation/velocity via integration".
\<close>

record motion =
  to_position :: vec3
  to_quaternion :: quaternion
  to_velocity :: vec3
  to_angularVelocity :: vec3

text \<open>
  The parts of cannon-es the scripts call and whose code is not in the repository,
  taken as parameters: the integrator behind \<open>world.step\<close> (given the sub-step size,
  the bodies of the world and the store, it returns the motion of each body and the
  \<open>collide\<close> events it emits, each with its target body and the impact velocity along
  the contact normal), \<open>Body.updateMassProperties\<close>, and for each shape constructor
  whether it throws on its arguments.
\<close>

record cannon =
  internalStep :: "real \<Rightarrow> ref list \<Rightarrow> (ref \<Rightarrow> Body) \<Rightarrow> (ref \<Rightarrow> motion) \<times> (ref \<times> real) list"
  updateMassProperties :: "Body \<Rightarrow> Body"
  Sphere_throws :: "real \<Rightarrow> bool"
  Box_throws :: "vec3 \<Rightarrow> bool"
  Cylinder_throws :: "real \<Rightarrow> real \<Rightarrow> real \<Rightarrow> nat \<Rightarrow> bool"

text \<open>The globals both scripts declare: the registry and the last clock reading.\<close>

record app = sim +
  objectsToUpdate :: "tracked list"
  oldElapsedTime :: real

text \<open>
  The globals of \<open>src/script.js\<close>, the spawning variant: the sound, the store of the plain
  \<open>{x, y, z}\<close> objects passed as positions, and the values \<open>Math.random()\<close> is going
  to return, with the number of calls made so far.
\<close>

record state = app +
  hitSound :: Audio
  objs :: "ref \<Rightarrow> vec3"
  next_obj :: ref
  random_seq :: "nat \<Rightarrow> real"
  random_pos :: nat

text \<open>
  An exception of JavaScript does not roll the state back: a call either returns, or
  throws and leaves the state as it was at the throw.
\<close>

datatype error = LibraryError

datatype outcome = Returned (final: state) | Threw error (final: state)

section \<open>Library operations\<close>

definition mesh_upd :: "ref \<Rightarrow> (Mesh \<Rightarrow> Mesh) \<Rightarrow> 'a sim_scheme \<Rightarrow> 'a sim_scheme" where
  "mesh_upd r f s = s\<lparr>meshes := (meshes s)(r := f (meshes s r))\<rparr>"

definition body_upd :: "ref \<Rightarrow> (Body \<Rightarrow> Body) \<Rightarrow> 'a sim_scheme \<Rightarrow> 'a sim_scheme" where
  "body_upd r f s = s\<lparr>bodies := (bodies s)(r := f (bodies s r))\<rparr>"

text \<open>
  Modelled from the spec: \<open>new THREE.Mesh(geometry, material)\<close> of three.js, which
  "constructs a VisualProxy with geometry matching shapeKind": a fresh mesh at the
  origin, unscaled and unrotated.
\<close>

definition new_Mesh :: "geometry \<Rightarrow> 'a sim_scheme \<Rightarrow> ref \<times> 'a sim_scheme" where
  "new_Mesh g s =
     (next_mesh s,
      s\<lparr>meshes := (meshes s)(next_mesh s :=
           \<lparr>mesh_geometry = g, mesh_castShadow = False, mesh_scale = Vec3 1 1 1,
            mesh_position = Vec3 0 0 0, mesh_quaternion = Quaternion 0 0 0 1\<rparr>),
        next_mesh := Suc (next_mesh s)\<rparr>)"

text \<open>
  Modelled from the spec: \<open>new CANNON.Body({ mass, position, shape, material })\<close> of
  cannon-es, a fresh body at rest with the identity orientation and no listener.
\<close>

definition new_Body ::
  "real \<Rightarrow> vec3 \<Rightarrow> shape list \<Rightarrow> material option \<Rightarrow> 'a sim_scheme \<Rightarrow> ref \<times> 'a sim_scheme" where
  "new_Body m p shs mat s =
     (next_body s,
      s\<lparr>bodies := (bodies s)(next_body s :=
           \<lparr>body_mass = m, body_position = p, body_quaternion = Quaternion 0 0 0 1,
            body_velocity = Vec3 0 0 0, body_angularVelocity = Vec3 0 0 0,
            body_shapes = shs, body_material = mat, body_listeners = []\<rparr>),
        next_body := Suc (next_body s)\<rparr>)"

text \<open>
  Modelled from the spec: \<open>Quaternion.setFromAxisAngle\<close> of cannon-es, the "canonical
  rotation" of a cylinder or plane: the rotation by the angle \<open>a\<close> about \<open>axis\<close>.
\<close>

definition setFromAxisAngle :: "vec3 \<Rightarrow> real \<Rightarrow> quaternion" where
  "setFromAxisAngle axis a =
     (let s = sin (a * 0.5)
      in Quaternion (vec_x axis * s) (vec_y axis * s) (vec_z axis * s) (cos (a * 0.5)))"

text \<open>
  Modelled from the spec: \<open>scene.add\<close> and \<open>scene.remove\<close> of three.js ("adds the pair
  to the World/scene", "remove its proxy from the scene"). An object has one parent:
  adding detaches it first; removing an absent object does nothing.
\<close>

definition scene_add :: "ref \<Rightarrow> 'a sim_scheme \<Rightarrow> 'a sim_scheme" where
  "scene_add m s = s\<lparr>scene_children := remove1 m (scene_children s) @ [m]\<rparr>"

definition scene_remove :: "ref \<Rightarrow> 'a sim_scheme \<Rightarrow> 'a sim_scheme" where
  "scene_remove m s = s\<lparr>scene_children := remove1 m (scene_children s)\<rparr>"

text \<open>
  Modelled from the spec: \<open>world.addBody\<close> and \<open>world.removeBody\<close> of cannon-es:
  "registers a RigidBody for integration" (a body already registered is not
  registered twice) and "deregisters a RigidBody; no-op if absent".
\<close>

definition addBody :: "ref \<Rightarrow> 'a sim_scheme \<Rightarrow> 'a sim_scheme" where
  "addBody b s =
     (if b \<in> set (world_bodies s) then s else s\<lparr>world_bodies := world_bodies s @ [b]\<rparr>)"

definition removeBody :: "ref \<Rightarrow> 'a sim_scheme \<Rightarrow> 'a sim_scheme" where
  "removeBody b s = s\<lparr>world_bodies := remove1 b (world_bodies s)\<rparr>"

text \<open>
  Modelled from the spec: \<open>body.addEventListener('collide', f)\<close> and
  \<open>body.removeEventListener('collide', f)\<close> of cannon-es ("registers a collision
  listener on the new body", "remove its collision listener"); a listener is
  registered at most once.
\<close>

definition addEventListener :: "ref \<Rightarrow> listener \<Rightarrow> 'a sim_scheme \<Rightarrow> 'a sim_scheme" where
  "addEventListener b l s =
     body_upd b (\<lambda>bd. if l \<in> set (body_listeners bd) then bd
                       else bd\<lparr>body_listeners := body_listeners bd @ [l]\<rparr>) s"

definition removeEventListener :: "ref \<Rightarrow> listener \<Rightarrow> 'a sim_scheme \<Rightarrow> 'a sim_scheme" where
  "removeEventListener b l s =
     body_upd b (\<lambda>bd. bd\<lparr>body_listeners := remove1 l (body_listeners bd)\<rparr>) s"

text \<open>
  Modelled from the spec: \<open>world.step(fixedDelta, elapsedDelta, maxSubSteps)\<close> of
  cannon-es: it "advances simulation time by elapsedDelta seconds using internal fixed
  sub-steps of fixedDelta, capped at maxSubSteps sub-steps per call". The elapsed
  time is added to the accumulator; while a whole \<open>fixedDelta\<close> is accumulated and the
  cap is not reached, one sub-step of size \<open>fixedDelta\<close> is integrated. The first
  argument of \<open>substep_loop\<close> is the number of sub-steps the cap still allows. The
  result carries the \<open>collide\<close> events emitted, in order.
\<close>

definition move :: "motion \<Rightarrow> Body \<Rightarrow> Body" where
  "move m b = b\<lparr>body_position := to_position m, body_quaternion := to_quaternion m,
                 body_velocity := to_velocity m, body_angularVelocity := to_angularVelocity m\<rparr>"

fun substep_loop ::
  "nat \<Rightarrow> cannon \<Rightarrow> real \<Rightarrow> 'a sim_scheme \<Rightarrow> 'a sim_scheme \<times> (ref \<times> real) list" where
  "substep_loop 0 lib dt s = (s, [])"
| "substep_loop (Suc n) lib dt s =
     (if world_accumulator s \<ge> dt then
        let (mv, evs) = internalStep lib dt (world_bodies s) (bodies s);
            s = s\<lparr>bodies := (\<lambda>r. if r \<in> set (world_bodies s) then move (mv r) (bodies s r)
                                   else bodies s r),
                  world_accumulator := world_accumulator s - dt,
                  world_substeps := world_substeps s @ [dt]\<rparr>;
            (s, evs') = substep_loop n lib dt s
        in (s, evs @ evs')
      else (s, []))"

definition world_step ::
  "cannon \<Rightarrow> real \<Rightarrow> real \<Rightarrow> nat \<Rightarrow> 'a sim_scheme \<Rightarrow> 'a sim_scheme \<times> (ref \<times> real) list" where
  "world_step lib fixedDelta elapsedDelta maxSubSteps s =
     substep_loop maxSubSteps lib fixedDelta
       (s\<lparr>world_accumulator := world_accumulator s + elapsedDelta\<rparr>)"

text \<open>
  The number of sub-steps the loop takes: it depends on the cap, the sub-step size and
  the accumulated time only.
\<close>

fun substeps_taken :: "nat \<Rightarrow> real \<Rightarrow> real \<Rightarrow> nat" where
  "substeps_taken 0 dt acc = 0"
| "substeps_taken (Suc n) dt acc =
     (if acc \<ge> dt then Suc (substeps_taken n dt (acc - dt)) else 0)"

text \<open>
  The store of bodies after one sub-step of size \<open>dt\<close>, as the loop of \<open>step\<close> leaves
  it: every body of the world is given the motion the integrator returns for it.
\<close>

definition substep_bodies :: "cannon \<Rightarrow> real \<Rightarrow> ref list \<Rightarrow> (ref \<Rightarrow> Body) \<Rightarrow> (ref \<Rightarrow> Body)" where
  "substep_bodies lib dt wb bs =
     (\<lambda>r. if r \<in> set wb then move (fst (internalStep lib dt wb bs) r) (bs r) else bs r)"

section \<open>The spawning variant: \<open>src/script.js\<close>\<close>

subsection \<open>Sounds\<close>

definition Math_random :: "state \<Rightarrow> real \<times> state" where
  "Math_random st = (random_seq st (random_pos st), st\<lparr>random_pos := Suc (random_pos st)\<rparr>)"

text \<open>
  \<open>playHitSound\<close>; its argument is what
  \<open>collision.contact.getImpactVelocityAlongNormal()\<close> returns.
\<close>

definition playHitSound :: "real \<Rightarrow> state \<Rightarrow> state" where
  "playHitSound impactStrength st =
     (if impactStrength > 1.5 then
        let (r, st) = Math_random st;
            st = st\<lparr>hitSound := (hitSound st)\<lparr>volume := r\<rparr>\<rparr>;
            st = st\<lparr>hitSound := (hitSound st)\<lparr>currentTime := 0\<rparr>\<rparr>;
            st = st\<lparr>hitSound := (hitSound st)\<lparr>paused := False,
                                              play_calls := Suc (play_calls (hitSound st))\<rparr>\<rparr>
        in st
      else st)"


subsection \<open>Object factory\<close>

definition sphereGeometry :: geometry where
  "sphereGeometry = SphereGeometry 1 20 20"

definition boxGeometry :: geometry where
  "boxGeometry = BoxGeometry 1 1 1"

definition defaultMaterial :: material where
  "defaultMaterial = Material ''default''"

definition createSphere :: "cannon \<Rightarrow> real \<Rightarrow> ref \<Rightarrow> state \<Rightarrow> outcome" where
  "createSphere lib radius position st =
     (let (msh, st) = new_Mesh sphereGeometry st;
          st = mesh_upd msh (\<lambda>m. m\<lparr>mesh_castShadow := True\<rparr>) st;
          st = mesh_upd msh (\<lambda>m. m\<lparr>mesh_scale := Vec3 radius radius radius\<rparr>) st;
          st = mesh_upd msh (\<lambda>m. m\<lparr>mesh_position := objs st position\<rparr>) st;
          st = scene_add msh st
      in if Sphere_throws lib radius then Threw LibraryError st
         else
           let shape = Sphere radius;
               (bdy, st) = new_Body 1 (Vec3 0 3 0) [shape] (Some defaultMaterial) st;
               st = body_upd bdy (\<lambda>b. b\<lparr>body_position := objs st position\<rparr>) st;
               st = addEventListener bdy PlayHitSound st;
               st = addBody bdy st
           in Returned (st\<lparr>objectsToUpdate := objectsToUpdate st @ [\<lparr>mesh = msh, body = bdy\<rparr>]\<rparr>))"

definition createBox :: "cannon \<Rightarrow> real \<Rightarrow> real \<Rightarrow> real \<Rightarrow> ref \<Rightarrow> state \<Rightarrow> outcome" where
  "createBox lib width height depth position st =
     (let (msh, st) = new_Mesh boxGeometry st;
          st = mesh_upd msh (\<lambda>m. m\<lparr>mesh_scale := Vec3 width height depth\<rparr>) st;
          st = mesh_upd msh (\<lambda>m. m\<lparr>mesh_castShadow := True\<rparr>) st;
          st = mesh_upd msh (\<lambda>m. m\<lparr>mesh_position := objs st position\<rparr>) st;
          st = scene_add msh st;
          halfExtents = Vec3 (width * 0.5) (height * 0.5) (depth * 0.5)
      in if Box_throws lib halfExtents then Threw LibraryError st
         else
           let shape = Box halfExtents;
               (bdy, st) = new_Body 1 (Vec3 0 3 0) [shape] (Some defaultMaterial) st;
               st = body_upd bdy (\<lambda>b. b\<lparr>body_position := objs st position\<rparr>) st;
               st = addEventListener bdy PlayHitSound st;
               st = addBody bdy st
           in Returned (st\<lparr>objectsToUpdate := objectsToUpdate st @ [\<lparr>mesh = msh, body = bdy\<rparr>]\<rparr>))"

definition createCylinder :: "cannon \<Rightarrow> real \<Rightarrow> real \<Rightarrow> ref \<Rightarrow> state \<Rightarrow> outcome" where
  "createCylinder lib radius height position st =
     (let adjustedRadius = radius * 0.2;
          adjustedHeight = height * 0.5;
          p = objs st position;
          st = st\<lparr>objs := (objs st)(position :=
                  Vec3 (vec_x p) (vec_y p + adjustedHeight / 2) (vec_z p))\<rparr>;
          cylinderGeometry = CylinderGeometry adjustedRadius adjustedRadius adjustedHeight 32;
          (cylinderMesh, st) = new_Mesh cylinderGeometry st;
          st = mesh_upd cylinderMesh (\<lambda>m. m\<lparr>mesh_castShadow := True\<rparr>) st;
          st = mesh_upd cylinderMesh (\<lambda>m. m\<lparr>mesh_position := objs st position\<rparr>) st;
          st = scene_add cylinderMesh st
      in if Cylinder_throws lib adjustedRadius adjustedRadius adjustedHeight 32
         then Threw LibraryError st
         else
           let shape = Cylinder adjustedRadius adjustedRadius adjustedHeight 32;
               quaternion = setFromAxisAngle (Vec3 1 0 0) (pi / 2);
               (bdy, st) = new_Body 1
                   (Vec3 (vec_x (objs st position)) (vec_y (objs st position))
                         (vec_z (objs st position)))
                   [shape] (Some defaultMaterial) st;
               st = body_upd bdy (\<lambda>b. b\<lparr>body_quaternion := quaternion\<rparr>) st;
               st = addBody bdy st
           in Returned (st\<lparr>objectsToUpdate :=
                              objectsToUpdate st @ [\<lparr>mesh = cylinderMesh, body = bdy\<rparr>]\<rparr>))"

subsection \<open>The buttons of the debug panel\<close>

text \<open>An object literal \<open>{ x: ..., y: ..., z: ... }\<close>: a fresh plain object.\<close>

definition new_object :: "vec3 \<Rightarrow> state \<Rightarrow> ref \<times> state" where
  "new_object v st =
     (next_obj st, st\<lparr>objs := (objs st)(next_obj st := v), next_obj := Suc (next_obj st)\<rparr>)"

definition debugObject_createSphere :: "cannon \<Rightarrow> state \<Rightarrow> outcome" where
  "debugObject_createSphere lib st =
     (let (r0, st) = Math_random st;
          (r1, st) = Math_random st;
          (r2, st) = Math_random st;
          (position, st) = new_object (Vec3 ((r1 - 0.5) * 3) 3 ((r2 - 0.5) * 3)) st
      in createSphere lib (r0 * 0.5) position st)"

definition debugObject_createBox :: "cannon \<Rightarrow> state \<Rightarrow> outcome" where
  "debugObject_createBox lib st =
     (let (r0, st) = Math_random st;
          (r1, st) = Math_random st;
          (r2, st) = Math_random st;
          (r3, st) = Math_random st;
          (r4, st) = Math_random st;
          (position, st) = new_object (Vec3 ((r3 - 0.5) * 3) 3 ((r4 - 0.5) * 3)) st
      in createBox lib r0 r1 r2 position st)"

definition debugObject_createCylinder :: "cannon \<Rightarrow> state \<Rightarrow> outcome" where
  "debugObject_createCylinder lib st =
     (let (r0, st) = Math_random st;
          (r1, st) = Math_random st;
          (r2, st) = Math_random st;
          (r3, st) = Math_random st;
          (position, st) = new_object (Vec3 ((r2 - 0.5) * 3) 3 ((r3 - 0.5) * 3)) st
      in createCylinder lib (r0 * 0.5 + 0.5) (r1 * 1.5 + 0.5) position st)"

text \<open>\<open>Array.prototype.splice(start, deleteCount)\<close>, for arguments within the array.\<close>

definition splice :: "nat \<Rightarrow> nat \<Rightarrow> 'a list \<Rightarrow> 'a list" where
  "splice start deleteCount xs = take start xs @ drop (start + deleteCount) xs"

text \<open>The body of the loop of \<open>debugObject.reset\<close>, for one tracked object.\<close>

definition reset_object :: "tracked \<Rightarrow> 'a sim_scheme \<Rightarrow> 'a sim_scheme" where
  "reset_object object st =
     (let st = removeEventListener (body object) PlayHitSound st;
          st = removeBody (body object) st;
          st = scene_remove (mesh object) st
      in st)"

definition debugObject_reset :: "state \<Rightarrow> state" where
  "debugObject_reset st =
     (let st = fold reset_object (objectsToUpdate st) st
      in st\<lparr>objectsToUpdate := splice 0 (length (objectsToUpdate st)) (objectsToUpdate st)\<rparr>)"

subsection \<open>Animate\<close>

text \<open>
  The delivery of one \<open>collide\<close> event: every listener registered on the target body
  is called, in the order of registration.
\<close>

fun call_listener :: "listener \<Rightarrow> real \<Rightarrow> state \<Rightarrow> state" where
  "call_listener PlayHitSound v st = playHitSound v st"

definition dispatch_collide :: "ref \<times> real \<Rightarrow> state \<Rightarrow> state" where
  "dispatch_collide ev st =
     fold (\<lambda>l. call_listener l (snd ev)) (body_listeners (bodies st (fst ev))) st"

text \<open>
  The loop over \<open>objectsToUpdate\<close> at the end of \<open>tick\<close>, the same in both scripts;
  \<open>update_object\<close> is its body.
\<close>

definition update_object :: "tracked \<Rightarrow> 'a sim_scheme \<Rightarrow> 'a sim_scheme" where
  "update_object object s =
     (let s = mesh_upd (mesh object)
                (\<lambda>m. m\<lparr>mesh_position := body_position (bodies s (body object))\<rparr>) s;
          s = mesh_upd (mesh object)
                (\<lambda>m. m\<lparr>mesh_quaternion := body_quaternion (bodies s (body object))\<rparr>) s
      in s)"

definition update_objects :: "'a app_scheme \<Rightarrow> 'a app_scheme" where
  "update_objects st = fold update_object (objectsToUpdate st) st"

text \<open>
  \<open>tick\<close>; its argument is what \<open>clock.getElapsedTime()\<close> returns. Updating the
  camera controls, rendering and asking for the next frame are outside the model.
\<close>

definition tick :: "cannon \<Rightarrow> real \<Rightarrow> state \<Rightarrow> state" where
  "tick lib elapsedTime st =
     (let deltaTime = elapsedTime - oldElapsedTime st;
          st = st\<lparr>oldElapsedTime := elapsedTime\<rparr>;
          (st, evs) = world_step lib (1 / 60) deltaTime 3 st;
          st = fold dispatch_collide evs st
      in update_objects st)"


subsection \<open>Start-up and the events of a run\<close>

definition blank_Mesh :: Mesh where
  "blank_Mesh = \<lparr>mesh_geometry = BoxGeometry 0 0 0, mesh_castShadow = False,
                  mesh_scale = Vec3 1 1 1, mesh_position = Vec3 0 0 0,
                  mesh_quaternion = Quaternion 0 0 0 1\<rparr>"

definition blank_Body :: Body where
  "blank_Body = \<lparr>body_mass = 0, body_position = Vec3 0 0 0,
                  body_quaternion = Quaternion 0 0 0 1, body_velocity = Vec3 0 0 0,
                  body_angularVelocity = Vec3 0 0 0, body_shapes = [],
                  body_material = None, body_listeners = []\<rparr>"

text \<open>
  An object of the scene that is not a mesh (the grid, a light, the camera): only its
  place among the children of the scene is modelled.
\<close>

definition new_Object3D :: "'a sim_scheme \<Rightarrow> ref \<times> 'a sim_scheme" where
  "new_Object3D s = (next_mesh s, s\<lparr>next_mesh := Suc (next_mesh s)\<rparr>)"

text \<open>
  The state of the spawning variant once the script has run to its last line, before the
  first \<open>tick\<close>: the floor body in the world, the grid, the lights and the camera in
  the scene, no tracked object. The argument is the sequence of values
  \<open>Math.random()\<close> returns.
\<close>

definition init :: "(nat \<Rightarrow> real) \<Rightarrow> state" where
  "init rs =
     (let st = \<lparr>meshes = (\<lambda>_. blank_Mesh), bodies = (\<lambda>_. blank_Body),
                next_mesh = 0, next_body = 0, scene_children = [], world_bodies = [],
                world_accumulator = 0, world_substeps = [],
                objectsToUpdate = [], oldElapsedTime = 0,
                hitSound = \<lparr>volume = 1, currentTime = 0, paused = True, play_calls = 0\<rparr>,
                objs = (\<lambda>_. Vec3 0 0 0), next_obj = 0,
                random_seq = rs, random_pos = 0\<rparr>;
          (floorBody, st) = new_Body 0 (Vec3 0 0 0) [] None st;
          st = body_upd floorBody (\<lambda>b. b\<lparr>body_mass := 0\<rparr>) st;
          st = body_upd floorBody (\<lambda>b. b\<lparr>body_shapes := body_shapes b @ [Plane]\<rparr>) st;
          st = body_upd floorBody
                 (\<lambda>b. b\<lparr>body_quaternion := setFromAxisAngle (Vec3 (- 1) 0 0) (pi * 0.5)\<rparr>) st;
          st = addBody floorBody st;
          (gridHelper, st) = new_Object3D st;
          st = scene_add gridHelper st;
          (ambientLight, st) = new_Object3D st;
          st = scene_add ambientLight st;
          (directionalLight, st) = new_Object3D st;
          st = scene_add directionalLight st;
          (camera, st) = new_Object3D st;
          st = scene_add camera st
      in st)"

text \<open>
  What happens to the page: a button of the panel is pressed, or the browser calls
  \<open>tick\<close> for a frame, with the reading of the clock. An exception thrown in a
  button's callback ends the callback; the page goes on from the state it left.
\<close>

datatype event =
    PressCreateSphere
  | PressCreateBox
  | PressCreateCylinder
  | PressReset
  | Frame real

fun handle :: "cannon \<Rightarrow> event \<Rightarrow> state \<Rightarrow> state" where
  "handle lib PressCreateSphere st = final (debugObject_createSphere lib st)"
| "handle lib PressCreateBox st = final (debugObject_createBox lib st)"
| "handle lib PressCreateCylinder st = final (debugObject_createCylinder lib st)"
| "handle lib PressReset st = debugObject_reset st"
| "handle lib (Frame elapsedTime) st = tick lib elapsedTime st"

definition run :: "cannon \<Rightarrow> event list \<Rightarrow> state \<Rightarrow> state" where
  "run lib evs st = fold (handle lib) evs st"

text \<open>
  What the script keeps true of the library's lists: a body is in the world once, an
  object in the scene once, a listener on a body once.
\<close>

definition wf :: "'a sim_scheme \<Rightarrow> bool" where
  "wf s \<longleftrightarrow> distinct (world_bodies s) \<and> distinct (scene_children s)
            \<and> (\<forall>r. distinct (body_listeners (bodies s r)))"

section \<open>The launch variant\<close>

text \<open>
  The globals of the second script: the settings, and the references held by the
  constants \<open>ball\<close> and \<open>ballBody\<close>.
\<close>

record launch_state = app +
  settings :: settings
  ball :: ref
  ballBody :: ref

definition settings_reset :: "launch_state \<Rightarrow> launch_state" where
  "settings_reset st =
     (let st = body_upd (ballBody st) (\<lambda>b. b\<lparr>body_velocity := Vec3 0 0 0\<rparr>) st;
          st = body_upd (ballBody st) (\<lambda>b. b\<lparr>body_angularVelocity := Vec3 0 0 0\<rparr>) st;
          st = body_upd (ballBody st)
                 (\<lambda>b. b\<lparr>body_position := Vec3 (- 7) (launchHeight (settings st)) 0\<rparr>) st
      in st)"

definition settings_launch :: "cannon \<Rightarrow> launch_state \<Rightarrow> launch_state" where
  "settings_launch lib st =
     (let st = body_upd (ballBody st) (\<lambda>b. b\<lparr>body_mass := mass (settings st)\<rparr>) st;
          st = body_upd (ballBody st) (updateMassProperties lib) st;
          angleInRadians = (angle (settings st) * pi) / 180;
          speed = velocity (settings st);
          adjustedSpeed = speed * (1 / sqrt (mass (settings st)));
          st = body_upd (ballBody st)
                 (\<lambda>b. b\<lparr>body_velocity := Vec3 (adjustedSpeed * cos angleInRadians)
                                              (adjustedSpeed * sin angleInRadians) 0\<rparr>) st
      in st)"

text \<open>
  \<open>tick\<close> of the launch variant. The script registers no listener on any body, so the
  \<open>collide\<close> events of the step reach nothing.
\<close>

definition launch_tick :: "cannon \<Rightarrow> real \<Rightarrow> launch_state \<Rightarrow> launch_state" where
  "launch_tick lib elapsedTime st =
     (let deltaTime = elapsedTime - oldElapsedTime st;
          st = st\<lparr>oldElapsedTime := elapsedTime\<rparr>;
          (st, evs) = world_step lib (1 / 80) deltaTime 3 st
      in update_objects st)"

text \<open>The state of the launch variant once the script has run, before the first \<open>tick\<close>.\<close>

definition launch_init :: launch_state where
  "launch_init =
     (let st = \<lparr>meshes = (\<lambda>_. blank_Mesh), bodies = (\<lambda>_. blank_Body),
                next_mesh = 0, next_body = 0, scene_children = [], world_bodies = [],
                world_accumulator = 0, world_substeps = [],
                objectsToUpdate = [], oldElapsedTime = 0,
                settings = \<lparr>angle = 45, velocity = 6, mass = 1, launchHeight = 1,
                            airResistance = True\<rparr>,
                ball = 0, ballBody = 0\<rparr>;
          (camera, st) = new_Object3D st;
          st = scene_add camera st;
          (gridHelper, st) = new_Object3D st;
          st = scene_add gridHelper st;
          (ambientLight, st) = new_Object3D st;
          st = scene_add ambientLight st;
          (pointLight, st) = new_Object3D st;
          st = scene_add pointLight st;
          (b, st) = new_Mesh (SphereGeometry 0.25 16 16) st;
          st = st\<lparr>ball := b\<rparr>;
          st = mesh_upd (ball st) (\<lambda>m. m\<lparr>mesh_position := Vec3 (- 7) 1.25 0\<rparr>) st;
          st = scene_add (ball st) st;
          (ground, st) = new_Mesh (PlaneGeometry 15 5) st;
          st = mesh_upd ground
                 (\<lambda>m. m\<lparr>mesh_quaternion := setFromAxisAngle (Vec3 1 0 0) (- pi * 0.5)\<rparr>) st;
          st = scene_add ground st;
          (groundBody, st) = new_Body 0 (Vec3 0 (- 0.25) 0) [] None st;
          st = body_upd groundBody
                 (\<lambda>b. b\<lparr>body_shapes := body_shapes b @ [Box (Vec3 7.5 0.25 2.5)]\<rparr>) st;
          st = addBody groundBody st;
          (bb, st) = new_Body 1 (Vec3 0 0 0) [] (Some defaultMaterial) st;
          st = st\<lparr>ballBody := bb\<rparr>;
          st = body_upd (ballBody st) (\<lambda>b. b\<lparr>body_shapes := body_shapes b @ [Sphere 0.25]\<rparr>) st;
          st = body_upd (ballBody st) (\<lambda>b. b\<lparr>body_position := Vec3 (- 7) 1.25 0\<rparr>) st;
          st = addBody (ballBody st) st;
          st = st\<lparr>objectsToUpdate := [\<lparr>mesh = ball st, body = ballBody st\<rparr>]\<rparr>
      in st)"

text \<open>
  What happens to the page of the launch variant: a control of the panel writes its
  field of \<open>settings\<close>, a button calls \<open>reset\<close> or \<open>launch\<close>, or a frame is due.
\<close>

datatype launch_event =
    SetAngle real
  | SetVelocity real
  | SetMass real
  | SetLaunchHeight real
  | SetAirResistance bool
  | PressSettingsReset
  | PressLaunch
  | LaunchFrame real

fun launch_handle :: "cannon \<Rightarrow> launch_event \<Rightarrow> launch_state \<Rightarrow> launch_state" where
  "launch_handle lib (SetAngle v) st = st\<lparr>settings := (settings st)\<lparr>angle := v\<rparr>\<rparr>"
| "launch_handle lib (SetVelocity v) st = st\<lparr>settings := (settings st)\<lparr>velocity := v\<rparr>\<rparr>"
| "launch_handle lib (SetMass v) st = st\<lparr>settings := (settings st)\<lparr>mass := v\<rparr>\<rparr>"
| "launch_handle lib (SetLaunchHeight v) st =
     st\<lparr>settings := (settings st)\<lparr>launchHeight := v\<rparr>\<rparr>"
| "launch_handle lib (SetAirResistance v) st =
     st\<lparr>settings := (settings st)\<lparr>airResistance := v\<rparr>\<rparr>"
| "launch_handle lib PressSettingsReset st = settings_reset st"
| "launch_handle lib PressLaunch st = settings_launch lib st"
| "launch_handle lib (LaunchFrame elapsedTime) st = launch_tick lib elapsedTime st"

definition launch_run :: "cannon \<Rightarrow> launch_event list \<Rightarrow> launch_state \<Rightarrow> launch_state" where
  "launch_run lib evs st = fold (launch_handle lib) evs st"

text \<open>
  Two inputs of a run are alike when they are the same, or both write the
  air-resistance setting; \<open>but_airResistance\<close> is a state with that one setting
  blotted out.
\<close>

fun alike :: "launch_event \<Rightarrow> launch_event \<Rightarrow> bool" where
  "alike (SetAirResistance a) (SetAirResistance b) = True"
| "alike e e' = (e = e')"

definition but_airResistance :: "launch_state \<Rightarrow> launch_state" where
  "but_airResistance st = st\<lparr>settings := (settings st)\<lparr>airResistance := False\<rparr>\<rparr>"

section \<open>A library for the examples\<close>

text \<open>
  One instance of the library's parameters, used in the examples only: bodies of
  positive mass fall freely (semi-implicit Euler under the gravity of the scripts),
  no contact is detected, the mass properties are left as they are, and the sphere
  and cylinder constructors throw on a negative radius.
\<close>

definition free_fall :: "real \<Rightarrow> Body \<Rightarrow> motion" where
  "free_fall dt b =
     (if body_mass b > 0 then
        let v = Vec3 (vec_x (body_velocity b)) (vec_y (body_velocity b) - 9.82 * dt)
                     (vec_z (body_velocity b));
            p = body_position b
        in \<lparr>to_position = Vec3 (vec_x p + vec_x v * dt) (vec_y p + vec_y v * dt)
                                (vec_z p + vec_z v * dt),
            to_quaternion = body_quaternion b, to_velocity = v,
            to_angularVelocity = body_angularVelocity b\<rparr>
      else \<lparr>to_position = body_position b, to_quaternion = body_quaternion b,
            to_velocity = body_velocity b, to_angularVelocity = body_angularVelocity b\<rparr>)"

definition example_cannon :: cannon where
  "example_cannon =
     \<lparr>internalStep = (\<lambda>dt bs store. (\<lambda>r. free_fall dt (store r), [])),
      updateMassProperties = (\<lambda>b. b),
      Sphere_throws = (\<lambda>r. r < 0),
      Box_throws = (\<lambda>h. False),
      Cylinder_throws = (\<lambda>radiusTop radiusBottom h n. radiusTop < 0 \<or> radiusBottom < 0)\<rparr>"

text \<open>
  The state of the examples: the spawning variant at start-up, \<open>Math.random()\<close> returning 0 at
  every call, with one position object \<open>{ x: 0, y: 3, z: 0 }\<close> at reference 0.
\<close>

definition example_state :: state where
  "example_state = snd (new_object (Vec3 0 3 0) (init (\<lambda>_. 0)))"

section \<open>Facts about the start-up states\<close>

lemmas init_defs = init_def new_Body_def new_Mesh_def new_Object3D_def
  body_upd_def mesh_upd_def addBody_def scene_add_def blank_Body_def blank_Mesh_def

lemma init_fields:
  "world_substeps (init rs) = []"
  "world_accumulator (init rs) = 0"
  "oldElapsedTime (init rs) = 0"
  "objectsToUpdate (init rs) = []"
  "world_bodies (init rs) = [0]"
  "scene_children (init rs) = [0, 1, 2, 3]"
  "next_mesh (init rs) = 4"
  "next_body (init rs) = 1"
  "next_obj (init rs) = 0"
  "random_seq (init rs) = rs"
  "random_pos (init rs) = 0"
  "hitSound (init rs) = \<lparr>volume = 1, currentTime = 0, paused = True, play_calls = 0\<rparr>"
  "objs (init rs) = (\<lambda>_. Vec3 0 0 0)"
  by (simp_all add: init_defs)

lemma launch_init_fields:
  "world_substeps launch_init = []"
  "world_accumulator launch_init = 0"
  "oldElapsedTime launch_init = 0"
  "objectsToUpdate launch_init = [\<lparr>mesh = 4, body = 1\<rparr>]"
  "world_bodies launch_init = [0, 1]"
  "scene_children launch_init = [0, 1, 2, 3, 4, 5]"
  "ball launch_init = 4"
  "ballBody launch_init = 1"
  "settings launch_init = \<lparr>angle = 45, velocity = 6, mass = 1, launchHeight = 1,
                            airResistance = True\<rparr>"
  by (simp_all add: init_defs launch_init_def)

section \<open>What each library operation changes\<close>

lemma mesh_upd_fields [simp]:
  "meshes (mesh_upd r f s) = (meshes s)(r := f (meshes s r))"
  "bodies (mesh_upd r f s) = bodies s"
  "next_mesh (mesh_upd r f s) = next_mesh s"
  "next_body (mesh_upd r f s) = next_body s"
  "scene_children (mesh_upd r f s) = scene_children s"
  "world_bodies (mesh_upd r f s) = world_bodies s"
  "world_accumulator (mesh_upd r f s) = world_accumulator s"
  "world_substeps (mesh_upd r f s) = world_substeps s"
  "objectsToUpdate (mesh_upd r f t) = objectsToUpdate t"
  "oldElapsedTime (mesh_upd r f t) = oldElapsedTime t"
  "hitSound (mesh_upd r f u) = hitSound u"
  "objs (mesh_upd r f u) = objs u"
  "next_obj (mesh_upd r f u) = next_obj u"
  "random_seq (mesh_upd r f u) = random_seq u"
  "random_pos (mesh_upd r f u) = random_pos u"
  "settings (mesh_upd r f w) = settings w"
  "ball (mesh_upd r f w) = ball w"
  "ballBody (mesh_upd r f w) = ballBody w"
  by (simp_all add: mesh_upd_def)

lemma body_upd_fields [simp]:
  "meshes (body_upd r f s) = meshes s"
  "bodies (body_upd r f s) = (bodies s)(r := f (bodies s r))"
  "next_mesh (body_upd r f s) = next_mesh s"
  "next_body (body_upd r f s) = next_body s"
  "scene_children (body_upd r f s) = scene_children s"
  "world_bodies (body_upd r f s) = world_bodies s"
  "world_accumulator (body_upd r f s) = world_accumulator s"
  "world_substeps (body_upd r f s) = world_substeps s"
  "objectsToUpdate (body_upd r f t) = objectsToUpdate t"
  "oldElapsedTime (body_upd r f t) = oldElapsedTime t"
  "hitSound (body_upd r f u) = hitSound u"
  "objs (body_upd r f u) = objs u"
  "next_obj (body_upd r f u) = next_obj u"
  "random_seq (body_upd r f u) = random_seq u"
  "random_pos (body_upd r f u) = random_pos u"
  "settings (body_upd r f w) = settings w"
  "ball (body_upd r f w) = ball w"
  "ballBody (body_upd r f w) = ballBody w"
  by (simp_all add: body_upd_def)

lemma new_Mesh_fields [simp]:
  "meshes (snd (new_Mesh g s)) = (meshes s)(next_mesh s :=
           \<lparr>mesh_geometry = g, mesh_castShadow = False, mesh_scale = Vec3 1 1 1,
            mesh_position = Vec3 0 0 0, mesh_quaternion = Quaternion 0 0 0 1\<rparr>)"
  "bodies (snd (new_Mesh g s)) = bodies s"
  "next_mesh (snd (new_Mesh g s)) = Suc (next_mesh s)"
  "next_body (snd (new_Mesh g s)) = next_body s"
  "scene_children (snd (new_Mesh g s)) = scene_children s"
  "world_bodies (snd (new_Mesh g s)) = world_bodies s"
  "world_accumulator (snd (new_Mesh g s)) = world_accumulator s"
  "world_substeps (snd (new_Mesh g s)) = world_substeps s"
  "objectsToUpdate (snd (new_Mesh g t)) = objectsToUpdate t"
  "oldElapsedTime (snd (new_Mesh g t)) = oldElapsedTime t"
  "hitSound (snd (new_Mesh g u)) = hitSound u"
  "objs (snd (new_Mesh g u)) = objs u"
  "next_obj (snd (new_Mesh g u)) = next_obj u"
  "random_seq (snd (new_Mesh g u)) = random_seq u"
  "random_pos (snd (new_Mesh g u)) = random_pos u"
  "settings (snd (new_Mesh g w)) = settings w"
  "ball (snd (new_Mesh g w)) = ball w"
  "ballBody (snd (new_Mesh g w)) = ballBody w"
  by (simp_all add: new_Mesh_def)

lemma new_Body_fields [simp]:
  "meshes (snd (new_Body m p shs mat s)) = meshes s"
  "bodies (snd (new_Body m p shs mat s)) = (bodies s)(next_body s :=
           \<lparr>body_mass = m, body_position = p, body_quaternion = Quaternion 0 0 0 1,
            body_velocity = Vec3 0 0 0, body_angularVelocity = Vec3 0 0 0,
            body_shapes = shs, body_material = mat, body_listeners = []\<rparr>)"
  "next_mesh (snd (new_Body m p shs mat s)) = next_mesh s"
  "next_body (snd (new_Body m p shs mat s)) = Suc (next_body s)"
  "scene_children (snd (new_Body m p shs mat s)) = scene_children s"
  "world_bodies (snd (new_Body m p shs mat s)) = world_bodies s"
  "world_accumulator (snd (new_Body m p shs mat s)) = world_accumulator s"
  "world_substeps (snd (new_Body m p shs mat s)) = world_substeps s"
  "objectsToUpdate (snd (new_Body m p shs mat t)) = objectsToUpdate t"
  "oldElapsedTime (snd (new_Body m p shs mat t)) = oldElapsedTime t"
  "hitSound (snd (new_Body m p shs mat u)) = hitSound u"
  "objs (snd (new_Body m p shs mat u)) = objs u"
  "next_obj (snd (new_Body m p shs mat u)) = next_obj u"
  "random_seq (snd (new_Body m p shs mat u)) = random_seq u"
  "random_pos (snd (new_Body m p shs mat u)) = random_pos u"
  "settings (snd (new_Body m p shs mat w)) = settings w"
  "ball (snd (new_Body m p shs mat w)) = ball w"
  "ballBody (snd (new_Body m p shs mat w)) = ballBody w"
  by (simp_all add: new_Body_def)

lemma new_Object3D_fields [simp]:
  "meshes (snd (new_Object3D s)) = meshes s"
  "bodies (snd (new_Object3D s)) = bodies s"
  "next_mesh (snd (new_Object3D s)) = Suc (next_mesh s)"
  "next_body (snd (new_Object3D s)) = next_body s"
  "scene_children (snd (new_Object3D s)) = scene_children s"
  "world_bodies (snd (new_Object3D s)) = world_bodies s"
  "world_accumulator (snd (new_Object3D s)) = world_accumulator s"
  "world_substeps (snd (new_Object3D s)) = world_substeps s"
  "objectsToUpdate (snd (new_Object3D t)) = objectsToUpdate t"
  "oldElapsedTime (snd (new_Object3D t)) = oldElapsedTime t"
  "hitSound (snd (new_Object3D u)) = hitSound u"
  "objs (snd (new_Object3D u)) = objs u"
  "next_obj (snd (new_Object3D u)) = next_obj u"
  "random_seq (snd (new_Object3D u)) = random_seq u"
  "random_pos (snd (new_Object3D u)) = random_pos u"
  "settings (snd (new_Object3D w)) = settings w"
  "ball (snd (new_Object3D w)) = ball w"
  "ballBody (snd (new_Object3D w)) = ballBody w"
  by (simp_all add: new_Object3D_def)

lemma scene_add_fields [simp]:
  "meshes (scene_add r s) = meshes s"
  "bodies (scene_add r s) = bodies s"
  "next_mesh (scene_add r s) = next_mesh s"
  "next_body (scene_add r s) = next_body s"
  "scene_children (scene_add r s) = remove1 r (scene_children s) @ [r]"
  "world_bodies (scene_add r s) = world_bodies s"
  "world_accumulator (scene_add r s) = world_accumulator s"
  "world_substeps (scene_add r s) = world_substeps s"
  "objectsToUpdate (scene_add r t) = objectsToUpdate t"
  "oldElapsedTime (scene_add r t) = oldElapsedTime t"
  "hitSound (scene_add r u) = hitSound u"
  "objs (scene_add r u) = objs u"
  "next_obj (scene_add r u) = next_obj u"
  "random_seq (scene_add r u) = random_seq u"
  "random_pos (scene_add r u) = random_pos u"
  "settings (scene_add r w) = settings w"
  "ball (scene_add r w) = ball w"
  "ballBody (scene_add r w) = ballBody w"
  by (simp_all add: scene_add_def)

lemma scene_remove_fields [simp]:
  "meshes (scene_remove r s) = meshes s"
  "bodies (scene_remove r s) = bodies s"
  "next_mesh (scene_remove r s) = next_mesh s"
  "next_body (scene_remove r s) = next_body s"
  "scene_children (scene_remove r s) = remove1 r (scene_children s)"
  "world_bodies (scene_remove r s) = world_bodies s"
  "world_accumulator (scene_remove r s) = world_accumulator s"
  "world_substeps (scene_remove r s) = world_substeps s"
  "objectsToUpdate (scene_remove r t) = objectsToUpdate t"
  "oldElapsedTime (scene_remove r t) = oldElapsedTime t"
  "hitSound (scene_remove r u) = hitSound u"
  "objs (scene_remove r u) = objs u"
  "next_obj (scene_remove r u) = next_obj u"
  "random_seq (scene_remove r u) = random_seq u"
  "random_pos (scene_remove r u) = random_pos u"
  "settings (scene_remove r w) = settings w"
  "ball (scene_remove r w) = ball w"
  "ballBody (scene_remove r w) = ballBody w"
  by (simp_all add: scene_remove_def)

lemma addBody_fields [simp]:
  "meshes (addBody b s) = meshes s"
  "bodies (addBody b s) = bodies s"
  "next_mesh (addBody b s) = next_mesh s"
  "next_body (addBody b s) = next_body s"
  "scene_children (addBody b s) = scene_children s"
  "world_bodies (addBody b s) = (if b \<in> set (world_bodies s) then world_bodies s else world_bodies s @ [b])"
  "world_accumulator (addBody b s) = world_accumulator s"
  "world_substeps (addBody b s) = world_substeps s"
  "objectsToUpdate (addBody b t) = objectsToUpdate t"
  "oldElapsedTime (addBody b t) = oldElapsedTime t"
  "hitSound (addBody b u) = hitSound u"
  "objs (addBody b u) = objs u"
  "next_obj (addBody b u) = next_obj u"
  "random_seq (addBody b u) = random_seq u"
  "random_pos (addBody b u) = random_pos u"
  "settings (addBody b w) = settings w"
  "ball (addBody b w) = ball w"
  "ballBody (addBody b w) = ballBody w"
  by (simp_all add: addBody_def)

lemma removeBody_fields [simp]:
  "meshes (removeBody b s) = meshes s"
  "bodies (removeBody b s) = bodies s"
  "next_mesh (removeBody b s) = next_mesh s"
  "next_body (removeBody b s) = next_body s"
  "scene_children (removeBody b s) = scene_children s"
  "world_bodies (removeBody b s) = remove1 b (world_bodies s)"
  "world_accumulator (removeBody b s) = world_accumulator s"
  "world_substeps (removeBody b s) = world_substeps s"
  "objectsToUpdate (removeBody b t) = objectsToUpdate t"
  "oldElapsedTime (removeBody b t) = oldElapsedTime t"
  "hitSound (removeBody b u) = hitSound u"
  "objs (removeBody b u) = objs u"
  "next_obj (removeBody b u) = next_obj u"
  "random_seq (removeBody b u) = random_seq u"
  "random_pos (removeBody b u) = random_pos u"
  "settings (removeBody b w) = settings w"
  "ball (removeBody b w) = ball w"
  "ballBody (removeBody b w) = ballBody w"
  by (simp_all add: removeBody_def)

lemma addEventListener_fields [simp]:
  "meshes (addEventListener b l s) = meshes s"
  "bodies (addEventListener b l s) = (bodies s)(b :=
        (if l \<in> set (body_listeners (bodies s b)) then bodies s b
         else (bodies s b)\<lparr>body_listeners := body_listeners (bodies s b) @ [l]\<rparr>))"
  "next_mesh (addEventListener b l s) = next_mesh s"
  "next_body (addEventListener b l s) = next_body s"
  "scene_children (addEventListener b l s) = scene_children s"
  "world_bodies (addEventListener b l s) = world_bodies s"
  "world_accumulator (addEventListener b l s) = world_accumulator s"
  "world_substeps (addEventListener b l s) = world_substeps s"
  "objectsToUpdate (addEventListener b l t) = objectsToUpdate t"
  "oldElapsedTime (addEventListener b l t) = oldElapsedTime t"
  "hitSound (addEventListener b l u) = hitSound u"
  "objs (addEventListener b l u) = objs u"
  "next_obj (addEventListener b l u) = next_obj u"
  "random_seq (addEventListener b l u) = random_seq u"
  "random_pos (addEventListener b l u) = random_pos u"
  "settings (addEventListener b l w) = settings w"
  "ball (addEventListener b l w) = ball w"
  "ballBody (addEventListener b l w) = ballBody w"
  by (simp_all add: addEventListener_def body_upd_def)

lemma removeEventListener_fields [simp]:
  "meshes (removeEventListener b l s) = meshes s"
  "bodies (removeEventListener b l s) = (bodies s)(b :=
        (bodies s b)\<lparr>body_listeners := remove1 l (body_listeners (bodies s b))\<rparr>)"
  "next_mesh (removeEventListener b l s) = next_mesh s"
  "next_body (removeEventListener b l s) = next_body s"
  "scene_children (removeEventListener b l s) = scene_children s"
  "world_bodies (removeEventListener b l s) = world_bodies s"
  "world_accumulator (removeEventListener b l s) = world_accumulator s"
  "world_substeps (removeEventListener b l s) = world_substeps s"
  "objectsToUpdate (removeEventListener b l t) = objectsToUpdate t"
  "oldElapsedTime (removeEventListener b l t) = oldElapsedTime t"
  "hitSound (removeEventListener b l u) = hitSound u"
  "objs (removeEventListener b l u) = objs u"
  "next_obj (removeEventListener b l u) = next_obj u"
  "random_seq (removeEventListener b l u) = random_seq u"
  "random_pos (removeEventListener b l u) = random_pos u"
  "settings (removeEventListener b l w) = settings w"
  "ball (removeEventListener b l w) = ball w"
  "ballBody (removeEventListener b l w) = ballBody w"
  by (simp_all add: removeEventListener_def body_upd_def)

lemma new_fst [simp]:
  "fst (new_Mesh g s) = next_mesh s"
  "fst (new_Body m p shs mat s) = next_body s"
  "fst (new_Object3D s) = next_mesh s"
  by (simp_all add: new_Mesh_def new_Body_def new_Object3D_def)

section \<open>The collision audio trigger\<close>

text \<open>
  Claim C5. On a collision event with impact velocity \<open>v\<close>: if \<open>v > 1.5\<close> the sound
  is played (one more call of \<open>play()\<close>, the element no longer paused) with its
  playback time reset to zero and the volume \<open>Math.random()\<close> returned, which lies in
  \<open>[0, 1]\<close> as \<open>Math.random()\<close> returns a value in \<open>[0, 1)\<close>; if \<open>v \<le> 1.5\<close> the state
  is unchanged.
\<close>

theorem playHitSound_threshold:
  assumes "0 \<le> random_seq st (random_pos st)" and "random_seq st (random_pos st) < 1"
  shows "(v > 1.5 \<longrightarrow>
            currentTime (hitSound (playHitSound v st)) = 0
          \<and> play_calls (hitSound (playHitSound v st)) = Suc (play_calls (hitSound st))
          \<and> \<not> paused (hitSound (playHitSound v st))
          \<and> volume (hitSound (playHitSound v st)) = random_seq st (random_pos st)
          \<and> 0 \<le> volume (hitSound (playHitSound v st))
          \<and> volume (hitSound (playHitSound v st)) \<le> 1)
       \<and> (v \<le> 1.5 \<longrightarrow> playHitSound v st = st)"
  using assms by (simp add: playHitSound_def Math_random_def)

text \<open>At \<open>v = 2\<close> the sound is played; at \<open>v = 1\<close> nothing happens.\<close>

theorem playHitSound_threshold_witness:
  "play_calls (hitSound (playHitSound 2 (init (\<lambda>_. 1 / 2)))) = 1
   \<and> volume (hitSound (playHitSound 2 (init (\<lambda>_. 1 / 2)))) = 1 / 2
   \<and> currentTime (hitSound (playHitSound 2 (init (\<lambda>_. 1 / 2)))) = 0
   \<and> playHitSound 1 (init (\<lambda>_. 1 / 2)) = init (\<lambda>_. 1 / 2)"
proof -
  let ?st = "init (\<lambda>_. 1 / 2)"
  have h1: "0 \<le> random_seq ?st (random_pos ?st)" and h2: "random_seq ?st (random_pos ?st) < 1"
    by (simp_all add: init_fields)
  from playHitSound_threshold [OF h1 h2, of 2] playHitSound_threshold [OF h1 h2, of 1]
  show ?thesis by (simp add: init_fields)
qed

section \<open>The sub-step cap\<close>

lemma substeps_taken_le: "substeps_taken n dt acc \<le> n"
  by (induction n arbitrary: acc) simp_all

lemma substep_loop_log:
  "world_substeps (fst (substep_loop n lib dt s))
     = world_substeps s @ replicate (substeps_taken n dt (world_accumulator s)) dt"
proof (induction n arbitrary: s)
  case 0
  show ?case by simp
next
  case (Suc n)
  show ?case
  proof (cases "dt \<le> world_accumulator s")
    case False
    then show ?thesis by simp
  next
    case True
    obtain mv evs where i: "internalStep lib dt (world_bodies s) (bodies s) = (mv, evs)"
      by (cases "internalStep lib dt (world_bodies s) (bodies s)")
    define s1 where "s1 = s\<lparr>bodies := (\<lambda>r. if r \<in> set (world_bodies s) then move (mv r) (bodies s r)
                                   else bodies s r),
                  world_accumulator := world_accumulator s - dt,
                  world_substeps := world_substeps s @ [dt]\<rparr>"
    have unfold: "fst (substep_loop (Suc n) lib dt s) = fst (substep_loop n lib dt s1)"
      using True i by (simp add: s1_def Let_def split: prod.split)
    have "world_substeps (fst (substep_loop n lib dt s1))
            = world_substeps s1 @ replicate (substeps_taken n dt (world_accumulator s1)) dt"
      by (rule Suc.IH)
    also have "world_substeps s1 = world_substeps s @ [dt]"
      by (simp add: s1_def)
    also have "world_accumulator s1 = world_accumulator s - dt"
      by (simp add: s1_def)
    finally show ?thesis
      using True unfold by simp
  qed
qed

lemma world_step_log:
  "world_substeps (fst (world_step lib dt elapsed n s))
     = world_substeps s @ replicate (substeps_taken n dt (world_accumulator s + elapsed)) dt"
  by (simp add: world_step_def substep_loop_log)

lemma playHitSound_sim [simp]:
  "world_substeps (playHitSound v st) = world_substeps st"
  "bodies (playHitSound v st) = bodies st"
  "meshes (playHitSound v st) = meshes st"
  "world_bodies (playHitSound v st) = world_bodies st"
  "scene_children (playHitSound v st) = scene_children st"
  "objectsToUpdate (playHitSound v st) = objectsToUpdate st"
  by (simp_all add: playHitSound_def Math_random_def)

lemma call_listener_sim [simp]:
  "world_substeps (call_listener l v st) = world_substeps st"
  "bodies (call_listener l v st) = bodies st"
  "meshes (call_listener l v st) = meshes st"
  "world_bodies (call_listener l v st) = world_bodies st"
  "scene_children (call_listener l v st) = scene_children st"
  "objectsToUpdate (call_listener l v st) = objectsToUpdate st"
  by (cases l; simp)+

lemma fold_call_listener_sim [simp]:
  "world_substeps (fold (\<lambda>l. call_listener l v) ls st) = world_substeps st
   \<and> bodies (fold (\<lambda>l. call_listener l v) ls st) = bodies st
   \<and> meshes (fold (\<lambda>l. call_listener l v) ls st) = meshes st
   \<and> world_bodies (fold (\<lambda>l. call_listener l v) ls st) = world_bodies st
   \<and> scene_children (fold (\<lambda>l. call_listener l v) ls st) = scene_children st
   \<and> objectsToUpdate (fold (\<lambda>l. call_listener l v) ls st) = objectsToUpdate st"
  by (induction ls arbitrary: st) simp_all

lemma dispatch_collide_sim [simp]:
  "world_substeps (dispatch_collide ev st) = world_substeps st"
  "bodies (dispatch_collide ev st) = bodies st"
  "meshes (dispatch_collide ev st) = meshes st"
  "world_bodies (dispatch_collide ev st) = world_bodies st"
  "scene_children (dispatch_collide ev st) = scene_children st"
  "objectsToUpdate (dispatch_collide ev st) = objectsToUpdate st"
  by (simp_all add: dispatch_collide_def)

lemma fold_dispatch_collide_sim [simp]:
  "world_substeps (fold dispatch_collide evs st) = world_substeps st
   \<and> bodies (fold dispatch_collide evs st) = bodies st
   \<and> meshes (fold dispatch_collide evs st) = meshes st
   \<and> world_bodies (fold dispatch_collide evs st) = world_bodies st
   \<and> scene_children (fold dispatch_collide evs st) = scene_children st
   \<and> objectsToUpdate (fold dispatch_collide evs st) = objectsToUpdate st"
  by (induction evs arbitrary: st) simp_all

lemma update_object_sim [simp]:
  "world_substeps (update_object x s) = world_substeps s"
  "bodies (update_object x s) = bodies s"
  "world_bodies (update_object x s) = world_bodies s"
  "scene_children (update_object x s) = scene_children s"
  by (simp_all add: update_object_def mesh_upd_def Let_def)

lemma fold_update_object_sim [simp]:
  "world_substeps (fold update_object xs s) = world_substeps s
   \<and> bodies (fold update_object xs s) = bodies s
   \<and> world_bodies (fold update_object xs s) = world_bodies s
   \<and> scene_children (fold update_object xs s) = scene_children s"
  by (induction xs arbitrary: s) simp_all

lemma update_objects_sim [simp]:
  "world_substeps (update_objects st) = world_substeps st"
  "bodies (update_objects st) = bodies st"
  "world_bodies (update_objects st) = world_bodies st"
  "scene_children (update_objects st) = scene_children st"
  by (simp_all add: update_objects_def)

lemma tick_unfold:
  "tick lib elapsedTime st =
     update_objects (fold dispatch_collide
        (snd (world_step lib (1 / 60) (elapsedTime - oldElapsedTime st) 3
                (st\<lparr>oldElapsedTime := elapsedTime\<rparr>)))
        (fst (world_step lib (1 / 60) (elapsedTime - oldElapsedTime st) 3
                (st\<lparr>oldElapsedTime := elapsedTime\<rparr>))))"
  unfolding tick_def Let_def by (simp only: split_beta)

lemma launch_tick_unfold:
  "launch_tick lib elapsedTime st =
     update_objects (fst (world_step lib (1 / 80) (elapsedTime - oldElapsedTime st) 3
                (st\<lparr>oldElapsedTime := elapsedTime\<rparr>)))"
  unfolding launch_tick_def Let_def by (simp only: split_beta)

lemma tick_log:
  "world_substeps (tick lib elapsedTime st)
     = world_substeps st @ replicate (substeps_taken 3 (1 / 60)
         (world_accumulator st + (elapsedTime - oldElapsedTime st))) (1 / 60)"
  by (simp add: tick_unfold world_step_log)

lemma launch_tick_log:
  "world_substeps (launch_tick lib elapsedTime st)
     = world_substeps st @ replicate (substeps_taken 3 (1 / 80)
         (world_accumulator st + (elapsedTime - oldElapsedTime st))) (1 / 80)"
  by (simp add: launch_tick_unfold world_step_log)

section \<open>The object factory\<close>

lemma createSphere_outcome:
  "createSphere lib radius position st =
     (if Sphere_throws lib radius then Threw LibraryError (final (createSphere lib radius position st))
      else Returned (final (createSphere lib radius position st)))"
  by (simp add: createSphere_def Let_def split_beta)

lemma createSphere_always:
  "scene_children (final (createSphere lib radius position st))
     = remove1 (next_mesh st) (scene_children st) @ [next_mesh st]"
  "meshes (final (createSphere lib radius position st)) (next_mesh st)
     = \<lparr>mesh_geometry = sphereGeometry, mesh_castShadow = True,
        mesh_scale = Vec3 radius radius radius, mesh_position = objs st position,
        mesh_quaternion = Quaternion 0 0 0 1\<rparr>"
  "objs (final (createSphere lib radius position st)) = objs st"
  by (simp_all add: createSphere_def Let_def split_beta)

lemma createSphere_thrown:
  assumes "Sphere_throws lib radius"
  shows "objectsToUpdate (final (createSphere lib radius position st)) = objectsToUpdate st"
    and "world_bodies (final (createSphere lib radius position st)) = world_bodies st"
    and "bodies (final (createSphere lib radius position st)) = bodies st"
  using assms by (simp_all add: createSphere_def Let_def split_beta)

lemma createSphere_returned:
  assumes "\<not> Sphere_throws lib radius"
  shows "objectsToUpdate (final (createSphere lib radius position st))
           = objectsToUpdate st @ [\<lparr>mesh = next_mesh st, body = next_body st\<rparr>]"
    and "next_body st \<in> set (world_bodies (final (createSphere lib radius position st)))"
    and "bodies (final (createSphere lib radius position st)) (next_body st)
           = \<lparr>body_mass = 1, body_position = objs st position,
              body_quaternion = Quaternion 0 0 0 1, body_velocity = Vec3 0 0 0,
              body_angularVelocity = Vec3 0 0 0, body_shapes = [Sphere radius],
              body_material = Some defaultMaterial, body_listeners = [PlayHitSound]\<rparr>"
  using assms by (simp_all add: createSphere_def Let_def split_beta)


lemma createBox_outcome:
  "createBox lib width height depth position st =
     (if Box_throws lib (Vec3 (width * 0.5) (height * 0.5) (depth * 0.5))
      then Threw LibraryError (final (createBox lib width height depth position st))
      else Returned (final (createBox lib width height depth position st)))"
  by (simp add: createBox_def Let_def split_beta)

lemma createBox_always:
  "scene_children (final (createBox lib width height depth position st))
     = remove1 (next_mesh st) (scene_children st) @ [next_mesh st]"
  "meshes (final (createBox lib width height depth position st)) (next_mesh st)
     = \<lparr>mesh_geometry = boxGeometry, mesh_castShadow = True,
        mesh_scale = Vec3 width height depth, mesh_position = objs st position,
        mesh_quaternion = Quaternion 0 0 0 1\<rparr>"
  "objs (final (createBox lib width height depth position st)) = objs st"
  by (simp_all add: createBox_def Let_def split_beta)

lemma createBox_thrown:
  assumes "Box_throws lib (Vec3 (width * 0.5) (height * 0.5) (depth * 0.5))"
  shows "objectsToUpdate (final (createBox lib width height depth position st)) = objectsToUpdate st"
    and "world_bodies (final (createBox lib width height depth position st)) = world_bodies st"
    and "bodies (final (createBox lib width height depth position st)) = bodies st"
  using assms by (simp_all add: createBox_def Let_def split_beta)

lemma createBox_returned:
  assumes "\<not> Box_throws lib (Vec3 (width * 0.5) (height * 0.5) (depth * 0.5))"
  shows "objectsToUpdate (final (createBox lib width height depth position st))
           = objectsToUpdate st @ [\<lparr>mesh = next_mesh st, body = next_body st\<rparr>]"
    and "next_body st \<in> set (world_bodies (final (createBox lib width height depth position st)))"
    and "bodies (final (createBox lib width height depth position st)) (next_body st)
           = \<lparr>body_mass = 1, body_position = objs st position,
              body_quaternion = Quaternion 0 0 0 1, body_velocity = Vec3 0 0 0,
              body_angularVelocity = Vec3 0 0 0,
              body_shapes = [Box (Vec3 (width * 0.5) (height * 0.5) (depth * 0.5))],
              body_material = Some defaultMaterial, body_listeners = [PlayHitSound]\<rparr>"
  using assms by (simp_all add: createBox_def Let_def split_beta)

lemma createCylinder_outcome:
  "createCylinder lib radius height position st =
     (if Cylinder_throws lib (radius * 0.2) (radius * 0.2) (height * 0.5) 32
      then Threw LibraryError (final (createCylinder lib radius height position st))
      else Returned (final (createCylinder lib radius height position st)))"
  by (simp add: createCylinder_def Let_def split_beta)

lemma createCylinder_always:
  "scene_children (final (createCylinder lib radius height position st))
     = remove1 (next_mesh st) (scene_children st) @ [next_mesh st]"
  "meshes (final (createCylinder lib radius height position st)) (next_mesh st)
     = \<lparr>mesh_geometry = CylinderGeometry (radius * 0.2) (radius * 0.2) (height * 0.5) 32,
        mesh_castShadow = True, mesh_scale = Vec3 1 1 1,
        mesh_position = Vec3 (vec_x (objs st position))
                             (vec_y (objs st position) + height * 0.5 / 2)
                             (vec_z (objs st position)),
        mesh_quaternion = Quaternion 0 0 0 1\<rparr>"
  "objs (final (createCylinder lib radius height position st))
     = (objs st)(position := Vec3 (vec_x (objs st position))
                                  (vec_y (objs st position) + height * 0.5 / 2)
                                  (vec_z (objs st position)))"
  by (simp_all add: createCylinder_def Let_def split_beta)

lemma createCylinder_thrown:
  assumes "Cylinder_throws lib (radius * 0.2) (radius * 0.2) (height * 0.5) 32"
  shows "objectsToUpdate (final (createCylinder lib radius height position st)) = objectsToUpdate st"
    and "world_bodies (final (createCylinder lib radius height position st)) = world_bodies st"
    and "bodies (final (createCylinder lib radius height position st)) = bodies st"
  using assms by (simp_all add: createCylinder_def Let_def split_beta)

lemma createCylinder_returned:
  assumes "\<not> Cylinder_throws lib (radius * 0.2) (radius * 0.2) (height * 0.5) 32"
  shows "objectsToUpdate (final (createCylinder lib radius height position st))
           = objectsToUpdate st @ [\<lparr>mesh = next_mesh st, body = next_body st\<rparr>]"
    and "next_body st \<in> set (world_bodies (final (createCylinder lib radius height position st)))"
    and "bodies (final (createCylinder lib radius height position st)) (next_body st)
           = \<lparr>body_mass = 1,
              body_position = Vec3 (vec_x (objs st position))
                                   (vec_y (objs st position) + height * 0.5 / 2)
                                   (vec_z (objs st position)),
              body_quaternion = setFromAxisAngle (Vec3 1 0 0) (pi / 2),
              body_velocity = Vec3 0 0 0, body_angularVelocity = Vec3 0 0 0,
              body_shapes = [Cylinder (radius * 0.2) (radius * 0.2) (height * 0.5) 32],
              body_material = Some defaultMaterial, body_listeners = []\<rparr>"
  using assms by (simp_all add: createCylinder_def Let_def split_beta)

lemma example_state_fields:
  "objs example_state 0 = Vec3 0 3 0"
  "next_mesh example_state = 4"
  "next_body example_state = 1"
  "objectsToUpdate example_state = []"
  "scene_children example_state = [0, 1, 2, 3]"
  "world_bodies example_state = [0]"
  "random_seq example_state = (\<lambda>_. 0)"
  "random_pos example_state = 0"
  "hitSound example_state = \<lparr>volume = 1, currentTime = 0, paused = True, play_calls = 0\<rparr>"
  by (simp_all add: example_state_def new_object_def init_fields)

lemma example_cannon_fields:
  "Sphere_throws example_cannon r = (r < 0)"
  "Box_throws example_cannon he = False"
  "Cylinder_throws example_cannon rt rb h n = (rt < 0 \<or> rb < 0)"
  "updateMassProperties example_cannon b = b"
  by (simp_all add: example_cannon_def)

text \<open>
  Claim C9. A valid spawn request (every dimension positive, the shape accepted by the
  library's constructor) returns, appends exactly one pair to \<open>objectsToUpdate\<close>, the
  new mesh with the new body, and the body starts where the mesh does: at \<open>position\<close>
  for a sphere or a box, at \<open>position\<close> raised by the cylinder's offset for a
  cylinder.
\<close>

theorem spawn_appends_one_pair:
  "(0 < radius \<and> \<not> Sphere_throws lib radius \<longrightarrow>
      (\<exists>st'. createSphere lib radius position st = Returned st'
         \<and> objectsToUpdate st' = objectsToUpdate st @ [\<lparr>mesh = next_mesh st, body = next_body st\<rparr>]
         \<and> body_position (bodies st' (next_body st)) = mesh_position (meshes st' (next_mesh st))
         \<and> mesh_position (meshes st' (next_mesh st)) = objs st position))
   \<and> (0 < width \<and> 0 < height \<and> 0 < depth
        \<and> \<not> Box_throws lib (Vec3 (width * 0.5) (height * 0.5) (depth * 0.5)) \<longrightarrow>
      (\<exists>st'. createBox lib width height depth position st = Returned st'
         \<and> objectsToUpdate st' = objectsToUpdate st @ [\<lparr>mesh = next_mesh st, body = next_body st\<rparr>]
         \<and> body_position (bodies st' (next_body st)) = mesh_position (meshes st' (next_mesh st))
         \<and> mesh_position (meshes st' (next_mesh st)) = objs st position))
   \<and> (0 < radius \<and> 0 < height
        \<and> \<not> Cylinder_throws lib (radius * 0.2) (radius * 0.2) (height * 0.5) 32 \<longrightarrow>
      (\<exists>st'. createCylinder lib radius height position st = Returned st'
         \<and> objectsToUpdate st' = objectsToUpdate st @ [\<lparr>mesh = next_mesh st, body = next_body st\<rparr>]
         \<and> body_position (bodies st' (next_body st)) = mesh_position (meshes st' (next_mesh st))
         \<and> mesh_position (meshes st' (next_mesh st))
             = Vec3 (vec_x (objs st position)) (vec_y (objs st position) + height * 0.5 / 2)
                    (vec_z (objs st position))))"
proof (intro conjI impI)
  assume a: "0 < radius \<and> \<not> Sphere_throws lib radius"
  let ?st' = "final (createSphere lib radius position st)"
  have "createSphere lib radius position st = Returned ?st'"
    using a createSphere_outcome [of lib radius position st] by simp
  then show "\<exists>st'. createSphere lib radius position st = Returned st'
         \<and> objectsToUpdate st' = objectsToUpdate st @ [\<lparr>mesh = next_mesh st, body = next_body st\<rparr>]
         \<and> body_position (bodies st' (next_body st)) = mesh_position (meshes st' (next_mesh st))
         \<and> mesh_position (meshes st' (next_mesh st)) = objs st position"
    using a by (intro exI [of _ ?st']) (simp add: createSphere_returned createSphere_always)
next
  assume a: "0 < width \<and> 0 < height \<and> 0 < depth
        \<and> \<not> Box_throws lib (Vec3 (width * 0.5) (height * 0.5) (depth * 0.5))"
  let ?st' = "final (createBox lib width height depth position st)"
  have "createBox lib width height depth position st = Returned ?st'"
    using a createBox_outcome [of lib width height depth position st] by simp
  then show "\<exists>st'. createBox lib width height depth position st = Returned st'
         \<and> objectsToUpdate st' = objectsToUpdate st @ [\<lparr>mesh = next_mesh st, body = next_body st\<rparr>]
         \<and> body_position (bodies st' (next_body st)) = mesh_position (meshes st' (next_mesh st))
         \<and> mesh_position (meshes st' (next_mesh st)) = objs st position"
    using a by (intro exI [of _ ?st']) (simp add: createBox_returned createBox_always)
next
  assume a: "0 < radius \<and> 0 < height
        \<and> \<not> Cylinder_throws lib (radius * 0.2) (radius * 0.2) (height * 0.5) 32"
  let ?st' = "final (createCylinder lib radius height position st)"
  have "createCylinder lib radius height position st = Returned ?st'"
    using a createCylinder_outcome [of lib radius height position st] by simp
  then show "\<exists>st'. createCylinder lib radius height position st = Returned st'
         \<and> objectsToUpdate st' = objectsToUpdate st @ [\<lparr>mesh = next_mesh st, body = next_body st\<rparr>]
         \<and> body_position (bodies st' (next_body st)) = mesh_position (meshes st' (next_mesh st))
         \<and> mesh_position (meshes st' (next_mesh st))
             = Vec3 (vec_x (objs st position)) (vec_y (objs st position) + height * 0.5 / 2)
                    (vec_z (objs st position))"
    using a by (intro exI [of _ ?st']) (simp add: createCylinder_returned createCylinder_always)
qed

text \<open>
  A sphere of radius 1/2, a unit box and a cylinder of radius 1 and height 2, each
  spawned at \<open>(0, 3, 0)\<close> in the example state.
\<close>

theorem spawn_appends_one_pair_witness:
  "objectsToUpdate (final (createSphere example_cannon (1 / 2) 0 example_state))
     = [\<lparr>mesh = 4, body = 1\<rparr>]
   \<and> body_position (bodies (final (createSphere example_cannon (1 / 2) 0 example_state)) 1)
       = Vec3 0 3 0
   \<and> mesh_position (meshes (final (createSphere example_cannon (1 / 2) 0 example_state)) 4)
       = Vec3 0 3 0
   \<and> objectsToUpdate (final (createBox example_cannon 1 1 1 0 example_state))
       = [\<lparr>mesh = 4, body = 1\<rparr>]
   \<and> body_position (bodies (final (createBox example_cannon 1 1 1 0 example_state)) 1)
       = mesh_position (meshes (final (createBox example_cannon 1 1 1 0 example_state)) 4)
   \<and> objectsToUpdate (final (createCylinder example_cannon 1 2 0 example_state))
       = [\<lparr>mesh = 4, body = 1\<rparr>]
   \<and> body_position (bodies (final (createCylinder example_cannon 1 2 0 example_state)) 1)
       = mesh_position (meshes (final (createCylinder example_cannon 1 2 0 example_state)) 4)"
proof -
  have s: "0 < (1 / 2 :: real) \<and> \<not> Sphere_throws example_cannon (1 / 2)"
    by (simp add: example_cannon_fields)
  have b: "0 < (1::real) \<and> 0 < (1::real) \<and> 0 < (1::real)
        \<and> \<not> Box_throws example_cannon (Vec3 (1 * 0.5) (1 * 0.5) (1 * 0.5))"
    by (simp add: example_cannon_fields)
  have c: "0 < (1::real) \<and> 0 < (2::real)
        \<and> \<not> Cylinder_throws example_cannon (1 * 0.2) (1 * 0.2) (2 * 0.5) 32"
    by (simp add: example_cannon_fields)
  from spawn_appends_one_pair [of "1 / 2" example_cannon 0 example_state 1 1 1]
    spawn_appends_one_pair [of 1 example_cannon 0 example_state 1 2 1] s b c
  show ?thesis
    by (auto simp add: example_state_fields)
qed

text \<open>
  Claim C2, as stated, fails: a sphere of radius 0 is spawned like any other. The call
  returns, the mesh is in the scene, the body in the world, and the pair in the
  registry.
\<close>

theorem spawn_invalid_counterexample:
  "createSphere example_cannon 0 0 example_state
     = Returned (final (createSphere example_cannon 0 0 example_state))
   \<and> objectsToUpdate example_state = []
   \<and> objectsToUpdate (final (createSphere example_cannon 0 0 example_state))
       = [\<lparr>mesh = 4, body = 1\<rparr>]
   \<and> scene_children (final (createSphere example_cannon 0 0 example_state)) = [0, 1, 2, 3, 4]
   \<and> 1 \<in> set (world_bodies (final (createSphere example_cannon 0 0 example_state)))
   \<and> body_shapes (bodies (final (createSphere example_cannon 0 0 example_state)) 1) = [Sphere 0]"
proof -
  have n: "\<not> Sphere_throws example_cannon 0"
    by (simp add: example_cannon_fields)
  have "createSphere example_cannon 0 0 example_state
     = Returned (final (createSphere example_cannon 0 0 example_state))"
    using n createSphere_outcome [of example_cannon 0 0 example_state] by simp
  moreover have "objectsToUpdate (final (createSphere example_cannon 0 0 example_state))
       = [\<lparr>mesh = 4, body = 1\<rparr>]"
    using createSphere_returned(1) [OF n, where position = 0 and st = example_state] by (simp add: example_state_fields)
  moreover have "scene_children (final (createSphere example_cannon 0 0 example_state)) = [0, 1, 2, 3, 4]"
    by (simp add: createSphere_always example_state_fields)
  moreover have "1 \<in> set (world_bodies (final (createSphere example_cannon 0 0 example_state)))"
    using createSphere_returned(2) [OF n, where position = 0 and st = example_state] by (simp add: example_state_fields)
  moreover have "body_shapes (bodies (final (createSphere example_cannon 0 0 example_state)) 1) = [Sphere 0]"
    using createSphere_returned(3) [OF n, where position = 0 and st = example_state] by (simp add: example_state_fields)
  ultimately show ?thesis by (simp add: example_state_fields)
qed

text \<open>
  Claim C2, amended. The spawn operations do not look at the sign of their
  dimensions. Whatever the dimensions, the mesh is added to the scene; then either
  the library's shape constructor throws, and the call ends there with no body added
  and no pair appended, or the call returns with the body in the world and one pair
  appended.
\<close>

theorem spawn_without_validation:
  "scene_children (final (createSphere lib radius position st))
       = remove1 (next_mesh st) (scene_children st) @ [next_mesh st]
   \<and> (\<not> Sphere_throws lib radius \<longrightarrow>
        (\<exists>st'. createSphere lib radius position st = Returned st'
           \<and> objectsToUpdate st' = objectsToUpdate st @ [\<lparr>mesh = next_mesh st, body = next_body st\<rparr>]
           \<and> next_body st \<in> set (world_bodies st')))
   \<and> (Sphere_throws lib radius \<longrightarrow>
        (\<exists>st'. createSphere lib radius position st = Threw LibraryError st'
           \<and> objectsToUpdate st' = objectsToUpdate st \<and> world_bodies st' = world_bodies st))
   \<and> scene_children (final (createBox lib width height depth position st))
       = remove1 (next_mesh st) (scene_children st) @ [next_mesh st]
   \<and> (\<not> Box_throws lib (Vec3 (width * 0.5) (height * 0.5) (depth * 0.5)) \<longrightarrow>
        (\<exists>st'. createBox lib width height depth position st = Returned st'
           \<and> objectsToUpdate st' = objectsToUpdate st @ [\<lparr>mesh = next_mesh st, body = next_body st\<rparr>]
           \<and> next_body st \<in> set (world_bodies st')))
   \<and> (Box_throws lib (Vec3 (width * 0.5) (height * 0.5) (depth * 0.5)) \<longrightarrow>
        (\<exists>st'. createBox lib width height depth position st = Threw LibraryError st'
           \<and> objectsToUpdate st' = objectsToUpdate st \<and> world_bodies st' = world_bodies st))
   \<and> scene_children (final (createCylinder lib radius height position st))
       = remove1 (next_mesh st) (scene_children st) @ [next_mesh st]
   \<and> (\<not> Cylinder_throws lib (radius * 0.2) (radius * 0.2) (height * 0.5) 32 \<longrightarrow>
        (\<exists>st'. createCylinder lib radius height position st = Returned st'
           \<and> objectsToUpdate st' = objectsToUpdate st @ [\<lparr>mesh = next_mesh st, body = next_body st\<rparr>]
           \<and> next_body st \<in> set (world_bodies st')))
   \<and> (Cylinder_throws lib (radius * 0.2) (radius * 0.2) (height * 0.5) 32 \<longrightarrow>
        (\<exists>st'. createCylinder lib radius height position st = Threw LibraryError st'
           \<and> objectsToUpdate st' = objectsToUpdate st \<and> world_bodies st' = world_bodies st))"
proof (intro conjI impI)
  show "scene_children (final (createSphere lib radius position st))
       = remove1 (next_mesh st) (scene_children st) @ [next_mesh st]"
    by (rule createSphere_always)
  show "scene_children (final (createBox lib width height depth position st))
       = remove1 (next_mesh st) (scene_children st) @ [next_mesh st]"
    by (rule createBox_always)
  show "scene_children (final (createCylinder lib radius height position st))
       = remove1 (next_mesh st) (scene_children st) @ [next_mesh st]"
    by (rule createCylinder_always)
next
  assume a: "\<not> Sphere_throws lib radius"
  let ?st' = "final (createSphere lib radius position st)"
  have "createSphere lib radius position st = Returned ?st'"
    using a createSphere_outcome [of lib radius position st] by simp
  then show "\<exists>st'. createSphere lib radius position st = Returned st'
           \<and> objectsToUpdate st' = objectsToUpdate st @ [\<lparr>mesh = next_mesh st, body = next_body st\<rparr>]
           \<and> next_body st \<in> set (world_bodies st')"
    using createSphere_returned(1,2) [OF a, where position = position and st = st] by (intro exI [of _ ?st']) simp
next
  assume a: "Sphere_throws lib radius"
  let ?st' = "final (createSphere lib radius position st)"
  have "createSphere lib radius position st = Threw LibraryError ?st'"
    using a createSphere_outcome [of lib radius position st] by simp
  then show "\<exists>st'. createSphere lib radius position st = Threw LibraryError st'
           \<and> objectsToUpdate st' = objectsToUpdate st \<and> world_bodies st' = world_bodies st"
    using createSphere_thrown(1,2) [OF a, where position = position and st = st] by (intro exI [of _ ?st']) simp
next
  assume a: "\<not> Box_throws lib (Vec3 (width * 0.5) (height * 0.5) (depth * 0.5))"
  let ?st' = "final (createBox lib width height depth position st)"
  have "createBox lib width height depth position st = Returned ?st'"
    using a createBox_outcome [of lib width height depth position st] by simp
  then show "\<exists>st'. createBox lib width height depth position st = Returned st'
           \<and> objectsToUpdate st' = objectsToUpdate st @ [\<lparr>mesh = next_mesh st, body = next_body st\<rparr>]
           \<and> next_body st \<in> set (world_bodies st')"
    using createBox_returned(1,2) [OF a, where position = position and st = st] by (intro exI [of _ ?st']) simp
next
  assume a: "Box_throws lib (Vec3 (width * 0.5) (height * 0.5) (depth * 0.5))"
  let ?st' = "final (createBox lib width height depth position st)"
  have "createBox lib width height depth position st = Threw LibraryError ?st'"
    using a createBox_outcome [of lib width height depth position st] by simp
  then show "\<exists>st'. createBox lib width height depth position st = Threw LibraryError st'
           \<and> objectsToUpdate st' = objectsToUpdate st \<and> world_bodies st' = world_bodies st"
    using createBox_thrown(1,2) [OF a, where position = position and st = st] by (intro exI [of _ ?st']) simp
next
  assume a: "\<not> Cylinder_throws lib (radius * 0.2) (radius * 0.2) (height * 0.5) 32"
  let ?st' = "final (createCylinder lib radius height position st)"
  have "createCylinder lib radius height position st = Returned ?st'"
    using a createCylinder_outcome [of lib radius height position st] by simp
  then show "\<exists>st'. createCylinder lib radius height position st = Returned st'
           \<and> objectsToUpdate st' = objectsToUpdate st @ [\<lparr>mesh = next_mesh st, body = next_body st\<rparr>]
           \<and> next_body st \<in> set (world_bodies st')"
    using createCylinder_returned(1,2) [OF a, where position = position and st = st] by (intro exI [of _ ?st']) simp
next
  assume a: "Cylinder_throws lib (radius * 0.2) (radius * 0.2) (height * 0.5) 32"
  let ?st' = "final (createCylinder lib radius height position st)"
  have "createCylinder lib radius height position st = Threw LibraryError ?st'"
    using a createCylinder_outcome [of lib radius height position st] by simp
  then show "\<exists>st'. createCylinder lib radius height position st = Threw LibraryError st'
           \<and> objectsToUpdate st' = objectsToUpdate st \<and> world_bodies st' = world_bodies st"
    using createCylinder_thrown(1,2) [OF a, where position = position and st = st] by (intro exI [of _ ?st']) simp
qed

text \<open>
  In the example library a box with a negative width is spawned whole, and a sphere of
  radius \<open>-1\<close> leaves its mesh in the scene with no body and no pair.
\<close>

theorem spawn_without_validation_witness:
  "\<not> Box_throws example_cannon (Vec3 (- 1 * 0.5) (1 * 0.5) (1 * 0.5))
   \<and> objectsToUpdate (final (createBox example_cannon (- 1) 1 1 0 example_state))
       = [\<lparr>mesh = 4, body = 1\<rparr>]
   \<and> Sphere_throws example_cannon (- 1)
   \<and> createSphere example_cannon (- 1) 0 example_state
       = Threw LibraryError (final (createSphere example_cannon (- 1) 0 example_state))
   \<and> scene_children (final (createSphere example_cannon (- 1) 0 example_state)) = [0, 1, 2, 3, 4]
   \<and> objectsToUpdate (final (createSphere example_cannon (- 1) 0 example_state)) = []
   \<and> world_bodies (final (createSphere example_cannon (- 1) 0 example_state)) = [0]"
proof -
  have b: "\<not> Box_throws example_cannon (Vec3 (- 1 * 0.5) (1 * 0.5) (1 * 0.5))"
    and s: "Sphere_throws example_cannon (- 1)"
    by (simp_all add: example_cannon_fields)
  from spawn_without_validation [of example_cannon "- 1" 0 example_state "- 1" 1 1] b s
  show ?thesis
    by (auto simp add: example_state_fields)
qed

text \<open>
  Claim C3 fails on the code for cylinders: \<open>createCylinder\<close> registers no listener,
  where \<open>createSphere\<close> and \<open>createBox\<close> register \<open>playHitSound\<close>. A cylinder of radius 1
  and height 1 spawned at \<open>(0, 3, 0)\<close> in the example state is tracked, its body has
  no listener, and a collision of impact velocity 2 on it leaves the sound as it was;
  the same collision on a sphere spawned there plays the sound.
\<close>

theorem createCylinder_registers_no_listener:
  "objectsToUpdate (final (createCylinder example_cannon 1 1 0 example_state))
     = [\<lparr>mesh = 4, body = 1\<rparr>]
   \<and> body_listeners (bodies (final (createCylinder example_cannon 1 1 0 example_state)) 1) = []
   \<and> hitSound (dispatch_collide (1, 2) (final (createCylinder example_cannon 1 1 0 example_state)))
       = hitSound example_state
   \<and> body_listeners (bodies (final (createSphere example_cannon 1 0 example_state)) 1)
       = [PlayHitSound]
   \<and> body_listeners (bodies (final (createBox example_cannon 1 1 1 0 example_state)) 1)
       = [PlayHitSound]
   \<and> play_calls (hitSound (dispatch_collide (1, 2)
         (final (createSphere example_cannon 1 0 example_state)))) = 1"
proof -
  have c: "\<not> Cylinder_throws example_cannon (1 * 0.2) (1 * 0.2) (1 * 0.5) 32"
    and s: "\<not> Sphere_throws example_cannon 1"
    and b: "\<not> Box_throws example_cannon (Vec3 (1 * 0.5) (1 * 0.5) (1 * 0.5))"
    by (simp_all add: example_cannon_fields)
  let ?c = "final (createCylinder example_cannon 1 1 0 example_state)"
  let ?s = "final (createSphere example_cannon 1 0 example_state)"
  have c1: "objectsToUpdate ?c = [\<lparr>mesh = 4, body = 1\<rparr>]"
    using createCylinder_returned(1) [OF c, where position = 0 and st = example_state] by (simp add: example_state_fields)
  have c2: "body_listeners (bodies ?c 1) = []"
    using createCylinder_returned(3) [OF c, where position = 0 and st = example_state] by (simp add: example_state_fields)
  have c3: "hitSound ?c = hitSound example_state"
    by (simp add: createCylinder_def Let_def split_beta)
  have c4: "hitSound (dispatch_collide (1, 2) ?c) = hitSound example_state"
    using c2 c3 by (simp add: dispatch_collide_def)
  have s1: "body_listeners (bodies ?s 1) = [PlayHitSound]"
    using createSphere_returned(3) [OF s, where position = 0 and st = example_state] by (simp add: example_state_fields)
  have s2: "hitSound ?s = hitSound example_state"
    by (simp add: createSphere_def Let_def split_beta)
  have s3: "play_calls (hitSound (dispatch_collide (1, 2) ?s)) = 1"
    using s1 s2 by (simp add: dispatch_collide_def playHitSound_def Math_random_def
        example_state_fields)
  have b1: "body_listeners (bodies (final (createBox example_cannon 1 1 1 0 example_state)) 1)
       = [PlayHitSound]"
    using createBox_returned(3) [OF b, where position = 0 and st = example_state] by (simp add: example_state_fields)
  from c1 c2 c4 s1 b1 s3 show ?thesis by simp
qed

text \<open>
  Claim C4, as stated, fails: a cylinder of requested height 2 spawned at \<open>(0, 3, 0)\<close>
  is placed at height 3.5, a raise of 1/2, where half the requested height is 1.
\<close>

theorem cylinder_offset_counterexample:
  "vec_y (objs example_state 0) = 3
   \<and> vec_y (body_position
        (bodies (final (createCylinder example_cannon 1 2 0 example_state)) 1)) = 7 / 2
   \<and> vec_y (mesh_position
        (meshes (final (createCylinder example_cannon 1 2 0 example_state)) 4)) = 7 / 2
   \<and> vec_y (body_position
        (bodies (final (createCylinder example_cannon 1 2 0 example_state)) 1)) \<noteq> 3 + 2 / 2"
proof -
  have c: "\<not> Cylinder_throws example_cannon (1 * 0.2) (1 * 0.2) (2 * 0.5) 32"
    by (simp add: example_cannon_fields)
  have b: "vec_y (body_position
        (bodies (final (createCylinder example_cannon 1 2 0 example_state)) 1)) = 7 / 2"
    using createCylinder_returned(3) [OF c, where position = 0 and st = example_state]
    by (simp add: example_state_fields)
  have m: "vec_y (mesh_position
        (meshes (final (createCylinder example_cannon 1 2 0 example_state)) 4)) = 7 / 2"
    using createCylinder_always(2) [of example_cannon 1 2 0 example_state]
    by (simp add: example_state_fields)
  from b m show ?thesis by (simp add: example_state_fields)
qed

text \<open>
  Claim C4, amended. The cylinder is built with half the requested height,
  \<open>adjustedHeight = height * 0.5\<close>, and is raised by half of that: the mesh, and the
  body when the call returns, are placed at \<open>position\<close> raised by \<open>height / 4\<close>.
\<close>

theorem cylinder_offset_half_adjusted_height:
  "mesh_geometry (meshes (final (createCylinder lib radius height position st)) (next_mesh st))
     = CylinderGeometry (radius * 0.2) (radius * 0.2) (height * 0.5) 32
   \<and> mesh_position (meshes (final (createCylinder lib radius height position st)) (next_mesh st))
       = Vec3 (vec_x (objs st position)) (vec_y (objs st position) + height / 4)
              (vec_z (objs st position))
   \<and> (\<not> Cylinder_throws lib (radius * 0.2) (radius * 0.2) (height * 0.5) 32 \<longrightarrow>
        body_shapes (bodies (final (createCylinder lib radius height position st)) (next_body st))
          = [Cylinder (radius * 0.2) (radius * 0.2) (height * 0.5) 32]
      \<and> body_position (bodies (final (createCylinder lib radius height position st)) (next_body st))
          = Vec3 (vec_x (objs st position)) (vec_y (objs st position) + height / 4)
                 (vec_z (objs st position)))"
proof -
  have q: "height * 0.5 / 2 = height / 4"
    by simp
  show ?thesis
    using createCylinder_returned(3) [where lib = lib and radius = radius and height = height
        and position = position and st = st]
    by (simp add: createCylinder_always(2) q)
qed

text \<open>
  A cylinder of requested height 2 at \<open>(0, 3, 0)\<close>: built with height 1, placed at
  height 3.5.
\<close>

theorem cylinder_offset_half_adjusted_height_witness:
  "\<not> Cylinder_throws example_cannon (1 * 0.2) (1 * 0.2) (2 * 0.5) 32
   \<and> body_shapes (bodies (final (createCylinder example_cannon 1 2 0 example_state)) 1)
       = [Cylinder (1 / 5) (1 / 5) 1 32]
   \<and> body_position (bodies (final (createCylinder example_cannon 1 2 0 example_state)) 1)
       = Vec3 0 (7 / 2) 0"
proof -
  have c: "\<not> Cylinder_throws example_cannon (1 * 0.2) (1 * 0.2) (2 * 0.5) 32"
    by (simp add: example_cannon_fields)
  from cylinder_offset_half_adjusted_height [of example_cannon 1 2 0 example_state] c
  show ?thesis
    by (simp add: example_state_fields)
qed

text \<open>
  Claim C10. \<open>createCylinder\<close> writes to the position object it is given: its \<open>y\<close> is
  increased by \<open>(height * 0.5) / 2\<close>, the other fields and every other object are left
  alone, and the mesh, and the body when the call returns, are placed at the new
  value. \<open>createSphere\<close> and \<open>createBox\<close> write to no position object.
\<close>

theorem createCylinder_mutates_position:
  "objs (final (createCylinder lib radius height position st))
     = (objs st)(position := Vec3 (vec_x (objs st position))
                                  (vec_y (objs st position) + (height * 0.5) / 2)
                                  (vec_z (objs st position)))
   \<and> mesh_position (meshes (final (createCylinder lib radius height position st)) (next_mesh st))
       = objs (final (createCylinder lib radius height position st)) position
   \<and> (\<not> Cylinder_throws lib (radius * 0.2) (radius * 0.2) (height * 0.5) 32 \<longrightarrow>
        body_position (bodies (final (createCylinder lib radius height position st)) (next_body st))
          = objs (final (createCylinder lib radius height position st)) position)
   \<and> objs (final (createSphere lib r position st)) = objs st
   \<and> objs (final (createBox lib width h depth position st)) = objs st"
  using createCylinder_returned(3) [where lib = lib and radius = radius and height = height
      and position = position and st = st]
  by (simp add: createCylinder_always createSphere_always createBox_always)

text \<open>
  The position object \<open>(0, 3, 0)\<close> reads \<open>(0, 3.5, 0)\<close> after a cylinder of requested
  height 2 is spawned at it, and \<open>(0, 3, 0)\<close> still after a sphere or a box is.
\<close>

theorem createCylinder_mutates_position_witness:
  "\<not> Cylinder_throws example_cannon (1 * 0.2) (1 * 0.2) (2 * 0.5) 32
   \<and> objs example_state 0 = Vec3 0 3 0
   \<and> objs (final (createCylinder example_cannon 1 2 0 example_state)) 0 = Vec3 0 (7 / 2) 0
   \<and> body_position (bodies (final (createCylinder example_cannon 1 2 0 example_state)) 1)
       = Vec3 0 (7 / 2) 0
   \<and> objs (final (createSphere example_cannon 1 0 example_state)) 0 = Vec3 0 3 0
   \<and> objs (final (createBox example_cannon 1 1 1 0 example_state)) 0 = Vec3 0 3 0"
proof -
  have c: "\<not> Cylinder_throws example_cannon (1 * 0.2) (1 * 0.2) (2 * 0.5) 32"
    by (simp add: example_cannon_fields)
  from createCylinder_mutates_position [of example_cannon 1 2 0 example_state 1 1 1 1] c
  show ?thesis
    by (simp add: example_state_fields)
qed

section \<open>The launch and the air-resistance setting\<close>

lemma settings_launch_fields [simp]:
  "settings (settings_launch lib st) = settings st"
  "ballBody (settings_launch lib st) = ballBody st"
  "ball (settings_launch lib st) = ball st"
  "objectsToUpdate (settings_launch lib st) = objectsToUpdate st"
  "oldElapsedTime (settings_launch lib st) = oldElapsedTime st"
  "world_bodies (settings_launch lib st) = world_bodies st"
  "world_accumulator (settings_launch lib st) = world_accumulator st"
  by (simp_all add: settings_launch_def Let_def)

lemma settings_launch_velocity:
  "body_velocity (bodies (settings_launch lib st) (ballBody st))
     = Vec3 (velocity (settings st) * (1 / sqrt (mass (settings st)))
               * cos (angle (settings st) * pi / 180))
            (velocity (settings st) * (1 / sqrt (mass (settings st)))
               * sin (angle (settings st) * pi / 180)) 0"
  by (simp add: settings_launch_def Let_def)

text \<open>
  Claim C7. With a positive mass, \<open>launch\<close> sets the velocity of the ball's body to
  \<open>(adjustedSpeed * cos a, adjustedSpeed * sin a, 0)\<close>, where \<open>a\<close> is the angle of the
  settings turned into radians and \<open>adjustedSpeed\<close> is the speed of the settings
  divided by the square root of the mass.
\<close>

theorem launch_velocity:
  assumes "0 < mass (settings st)"
  shows "body_velocity (bodies (settings_launch lib st) (ballBody st))
     = Vec3 (velocity (settings st) / sqrt (mass (settings st))
               * cos (angle (settings st) * pi / 180))
            (velocity (settings st) / sqrt (mass (settings st))
               * sin (angle (settings st) * pi / 180)) 0"
  by (simp add: settings_launch_velocity)

text \<open>Angle 0, velocity 10 and mass 1 give the velocity \<open>(10, 0, 0)\<close>.\<close>

theorem launch_velocity_witness:
  "0 < mass (settings (launch_run example_cannon [SetAngle 0, SetVelocity 10, SetMass 1] launch_init))
   \<and> body_velocity (bodies
        (launch_run example_cannon [SetAngle 0, SetVelocity 10, SetMass 1, PressLaunch] launch_init)
        (ballBody launch_init)) = Vec3 10 0 0"
proof -
  let ?st = "launch_run example_cannon [SetAngle 0, SetVelocity 10, SetMass 1] launch_init"
  have s: "settings ?st = \<lparr>angle = 0, velocity = 10, mass = 1, launchHeight = 1,
                            airResistance = True\<rparr>"
    and b: "ballBody ?st = ballBody launch_init"
    by (simp_all add: launch_run_def launch_init_fields)
  have r: "launch_run example_cannon [SetAngle 0, SetVelocity 10, SetMass 1, PressLaunch] launch_init
             = settings_launch example_cannon ?st"
    by (simp add: launch_run_def)
  have m: "0 < mass (settings ?st)"
    by (simp add: s)
  from launch_velocity [OF m, of example_cannon] m show ?thesis
    by (simp add: r b s)
qed

subsection \<open>The air-resistance setting\<close>

lemma settings_update_commutes:
  "st\<lparr>settings := x\<rparr>\<lparr>world_accumulator := a\<rparr> = st\<lparr>world_accumulator := a\<rparr>\<lparr>settings := x\<rparr>"
  "st\<lparr>settings := x\<rparr>\<lparr>oldElapsedTime := t\<rparr> = st\<lparr>oldElapsedTime := t\<rparr>\<lparr>settings := x\<rparr>"
  "st\<lparr>settings := x\<rparr>\<lparr>bodies := b, world_accumulator := a, world_substeps := l\<rparr>
     = st\<lparr>bodies := b, world_accumulator := a, world_substeps := l\<rparr>\<lparr>settings := x\<rparr>"
  "st\<lparr>settings := x\<rparr>\<lparr>meshes := m\<rparr> = st\<lparr>meshes := m\<rparr>\<lparr>settings := x\<rparr>"
  "st\<lparr>settings := x\<rparr>\<lparr>bodies := b\<rparr> = st\<lparr>bodies := b\<rparr>\<lparr>settings := x\<rparr>"
  by (rule launch_state.equality; simp)+

lemma substep_loop_Suc:
  assumes "dt \<le> world_accumulator s"
    and "internalStep lib dt (world_bodies s) (bodies s) = (mv, evs)"
  shows "substep_loop (Suc n) lib dt s
     = (fst (substep_loop n lib dt
               (s\<lparr>bodies := (\<lambda>r. if r \<in> set (world_bodies s) then move (mv r) (bodies s r)
                                 else bodies s r),
                  world_accumulator := world_accumulator s - dt,
                  world_substeps := world_substeps s @ [dt]\<rparr>)),
        evs @ snd (substep_loop n lib dt
               (s\<lparr>bodies := (\<lambda>r. if r \<in> set (world_bodies s) then move (mv r) (bodies s r)
                                 else bodies s r),
                  world_accumulator := world_accumulator s - dt,
                  world_substeps := world_substeps s @ [dt]\<rparr>)))"
  using assms by (simp add: Let_def split: prod.split)

lemma substep_loop_settings:
  "substep_loop n lib dt (st\<lparr>settings := x\<rparr>)
     = (fst (substep_loop n lib dt st)\<lparr>settings := x\<rparr>, snd (substep_loop n lib dt st))"
proof (induction n arbitrary: st)
  case 0
  show ?case by simp
next
  case (Suc n)
  show ?case
  proof (cases "dt \<le> world_accumulator st")
    case False
    then show ?thesis by simp
  next
    case True
    obtain mv evs where i: "internalStep lib dt (world_bodies st) (bodies st) = (mv, evs)"
      by (cases "internalStep lib dt (world_bodies st) (bodies st)")
    define s1 where "s1 = st\<lparr>bodies := (\<lambda>r. if r \<in> set (world_bodies st)
                                        then move (mv r) (bodies st r) else bodies st r),
                  world_accumulator := world_accumulator st - dt,
                  world_substeps := world_substeps st @ [dt]\<rparr>"
    have a: "substep_loop (Suc n) lib dt st
               = (fst (substep_loop n lib dt s1), evs @ snd (substep_loop n lib dt s1))"
      unfolding s1_def by (rule substep_loop_Suc [OF True i])
    have "substep_loop (Suc n) lib dt (st\<lparr>settings := x\<rparr>)
               = (fst (substep_loop n lib dt (s1\<lparr>settings := x\<rparr>)),
                  evs @ snd (substep_loop n lib dt (s1\<lparr>settings := x\<rparr>)))"
      using substep_loop_Suc [of dt "st\<lparr>settings := x\<rparr>" lib mv evs n] True i
      by (simp add: s1_def settings_update_commutes(3) cong: if_cong)
    then show ?thesis
      by (simp only: a Suc.IH [of s1] fst_conv snd_conv)
  qed
qed

lemma world_step_settings:
  "world_step lib dt elapsed n (st\<lparr>settings := x\<rparr>)
     = (fst (world_step lib dt elapsed n st)\<lparr>settings := x\<rparr>,
        snd (world_step lib dt elapsed n st))"
proof -
  have "world_step lib dt elapsed n (st\<lparr>settings := x\<rparr>)
          = substep_loop n lib dt
              (st\<lparr>world_accumulator := world_accumulator st + elapsed\<rparr>\<lparr>settings := x\<rparr>)"
    by (simp add: world_step_def settings_update_commutes(1))
  also have "\<dots> = (fst (world_step lib dt elapsed n st)\<lparr>settings := x\<rparr>,
        snd (world_step lib dt elapsed n st))"
    by (simp only: substep_loop_settings world_step_def)
  finally show ?thesis .
qed

lemma update_object_settings:
  "update_object object (st\<lparr>settings := x\<rparr>) = (update_object object st)\<lparr>settings := x\<rparr>"
  by (simp add: update_object_def mesh_upd_def Let_def settings_update_commutes(4))

lemma fold_update_object_settings:
  "fold update_object xs (st\<lparr>settings := x\<rparr>) = (fold update_object xs st)\<lparr>settings := x\<rparr>"
  by (induction xs arbitrary: st) (simp_all add: update_object_settings)

lemma update_objects_settings:
  "update_objects (st\<lparr>settings := x\<rparr>) = (update_objects st)\<lparr>settings := x\<rparr>"
  by (simp add: update_objects_def fold_update_object_settings)

lemma launch_tick_settings:
  "launch_tick lib elapsedTime (st\<lparr>settings := x\<rparr>) = (launch_tick lib elapsedTime st)\<lparr>settings := x\<rparr>"
proof -
  have "launch_tick lib elapsedTime (st\<lparr>settings := x\<rparr>)
          = update_objects (fst (world_step lib (1 / 80) (elapsedTime - oldElapsedTime st) 3
                (st\<lparr>oldElapsedTime := elapsedTime\<rparr>\<lparr>settings := x\<rparr>)))"
    by (simp add: launch_tick_unfold settings_update_commutes(2))
  also have "\<dots> = (launch_tick lib elapsedTime st)\<lparr>settings := x\<rparr>"
    by (simp only: world_step_settings fst_conv update_objects_settings launch_tick_unfold)
  finally show ?thesis .
qed

lemma settings_reset_airResistance:
  "settings_reset (st\<lparr>settings := (settings st)\<lparr>airResistance := a\<rparr>\<rparr>)
     = (settings_reset st)\<lparr>settings := (settings st)\<lparr>airResistance := a\<rparr>\<rparr>"
  by (simp add: settings_reset_def body_upd_def Let_def settings_update_commutes(5))

lemma settings_launch_airResistance:
  "settings_launch lib (st\<lparr>settings := (settings st)\<lparr>airResistance := a\<rparr>\<rparr>)
     = (settings_launch lib st)\<lparr>settings := (settings st)\<lparr>airResistance := a\<rparr>\<rparr>"
  by (simp add: settings_launch_def body_upd_def Let_def settings_update_commutes(5))

lemma but_airResistance_idem [simp]:
  "but_airResistance (but_airResistance st) = but_airResistance st"
  by (simp add: but_airResistance_def)

lemma but_airResistance_fields [simp]:
  "bodies (but_airResistance st) = bodies st"
  "meshes (but_airResistance st) = meshes st"
  "world_substeps (but_airResistance st) = world_substeps st"
  "ballBody (but_airResistance st) = ballBody st"
  "settings (but_airResistance st) = (settings st)\<lparr>airResistance := False\<rparr>"
  by (simp_all add: but_airResistance_def)

lemma settings_reset_settings [simp]: "settings (settings_reset st) = settings st"
  by (simp add: settings_reset_def Let_def)

lemma launch_tick_settings_same [simp]: "settings (launch_tick lib t st) = settings st"
proof -
  have "launch_tick lib t st = (launch_tick lib t st)\<lparr>settings := settings st\<rparr>"
    using launch_tick_settings [where lib = lib and elapsedTime = t and st = st and x = "settings st"]
    by simp
  then have "settings (launch_tick lib t st)
               = settings ((launch_tick lib t st)\<lparr>settings := settings st\<rparr>)"
    by (rule arg_cong)
  then show ?thesis by simp
qed

lemma settings_reset_but:
  "settings_reset (but_airResistance st) = but_airResistance (settings_reset st)"
  by (simp add: but_airResistance_def settings_reset_airResistance)

lemma settings_launch_but:
  "settings_launch lib (but_airResistance st) = but_airResistance (settings_launch lib st)"
  by (simp add: but_airResistance_def settings_launch_airResistance)

lemma launch_tick_but:
  "launch_tick lib t (but_airResistance st) = but_airResistance (launch_tick lib t st)"
  by (simp add: but_airResistance_def launch_tick_settings)

lemma launch_handle_but:
  "but_airResistance (launch_handle lib e st)
     = (case e of SetAirResistance a \<Rightarrow> but_airResistance st
        | _ \<Rightarrow> but_airResistance (launch_handle lib e (but_airResistance st)))"
proof (cases e)
  case (SetAirResistance a)
  then show ?thesis by (simp add: but_airResistance_def)
next
  case PressSettingsReset
  then show ?thesis by (simp add: settings_reset_but)
next
  case PressLaunch
  then show ?thesis by (simp add: settings_launch_but)
next
  case (LaunchFrame t)
  then show ?thesis by (simp add: launch_tick_but)
qed (simp_all add: but_airResistance_def)

lemma launch_handle_alike:
  assumes "alike e e'" and "but_airResistance st = but_airResistance st'"
  shows "but_airResistance (launch_handle lib e st) = but_airResistance (launch_handle lib e' st')"
proof (cases e)
  case (SetAirResistance a)
  with assms(1) obtain b where "e' = SetAirResistance b"
    by (cases e') simp_all
  with SetAirResistance assms(2) show ?thesis
    by (simp add: launch_handle_but [of lib "SetAirResistance a"]
        launch_handle_but [of lib "SetAirResistance b"] del: launch_handle.simps)
next
  case (SetAngle v)
  with assms(1) have "e' = e" by (cases e') simp_all
  with SetAngle assms(2) show ?thesis
    using launch_handle_but [of lib e st] launch_handle_but [of lib e st'] by simp
next
  case (SetVelocity v)
  with assms(1) have "e' = e" by (cases e') simp_all
  with SetVelocity assms(2) show ?thesis
    using launch_handle_but [of lib e st] launch_handle_but [of lib e st'] by simp
next
  case (SetMass v)
  with assms(1) have "e' = e" by (cases e') simp_all
  with SetMass assms(2) show ?thesis
    using launch_handle_but [of lib e st] launch_handle_but [of lib e st'] by simp
next
  case (SetLaunchHeight v)
  with assms(1) have "e' = e" by (cases e') simp_all
  with SetLaunchHeight assms(2) show ?thesis
    using launch_handle_but [of lib e st] launch_handle_but [of lib e st'] by simp
next
  case PressSettingsReset
  with assms(1) have "e' = e" by (cases e') simp_all
  with PressSettingsReset assms(2) show ?thesis
    using launch_handle_but [of lib e st] launch_handle_but [of lib e st'] by simp
next
  case PressLaunch
  with assms(1) have "e' = e" by (cases e') simp_all
  with PressLaunch assms(2) show ?thesis
    using launch_handle_but [of lib e st] launch_handle_but [of lib e st'] by simp
next
  case (LaunchFrame t)
  with assms(1) have "e' = e" by (cases e') simp_all
  with LaunchFrame assms(2) show ?thesis
    using launch_handle_but [of lib e st] launch_handle_but [of lib e st'] by simp
qed

lemma launch_run_alike:
  assumes "list_all2 alike evs evs'" and "but_airResistance st = but_airResistance st'"
  shows "but_airResistance (launch_run lib evs st) = but_airResistance (launch_run lib evs' st')"
  using assms
proof (induction evs evs' arbitrary: st st' rule: list_all2_induct)
  case Nil
  then show ?case by (simp add: launch_run_def)
next
  case (Cons e es e' es')
  have "but_airResistance (launch_handle lib e st) = but_airResistance (launch_handle lib e' st')"
    using Cons.hyps(1) Cons.prems by (rule launch_handle_alike)
  then have "but_airResistance (launch_run lib es (launch_handle lib e st))
               = but_airResistance (launch_run lib es' (launch_handle lib e' st'))"
    by (rule Cons.IH)
  then show ?case by (simp add: launch_run_def)
qed

text \<open>
  Claim C8. Two runs of the launch variant that start from states alike but for the
  air-resistance setting, and receive the same inputs but for the values written to
  that setting, agree after every number of inputs on every body (position,
  orientation, velocity) and every mesh; they agree on the whole state but for that
  setting.
\<close>

theorem airResistance_no_effect:
  assumes "list_all2 alike evs evs'"
    and "but_airResistance st = but_airResistance st'"
  shows "\<forall>n. bodies (launch_run lib (take n evs) st) = bodies (launch_run lib (take n evs') st')
           \<and> meshes (launch_run lib (take n evs) st) = meshes (launch_run lib (take n evs') st')
           \<and> but_airResistance (launch_run lib (take n evs) st)
               = but_airResistance (launch_run lib (take n evs') st')"
proof
  fix n
  have "list_all2 alike (take n evs) (take n evs')"
    using assms(1) by (rule list_all2_takeI)
  then have e: "but_airResistance (launch_run lib (take n evs) st)
               = but_airResistance (launch_run lib (take n evs') st')"
    using assms(2) by (rule launch_run_alike)
  from e have "bodies (but_airResistance (launch_run lib (take n evs) st))
          = bodies (but_airResistance (launch_run lib (take n evs') st'))"
    by (rule arg_cong)
  then have b: "bodies (launch_run lib (take n evs) st) = bodies (launch_run lib (take n evs') st')"
    by (simp only: but_airResistance_fields)
  from e have "meshes (but_airResistance (launch_run lib (take n evs) st))
          = meshes (but_airResistance (launch_run lib (take n evs') st'))"
    by (rule arg_cong)
  then have m: "meshes (launch_run lib (take n evs) st) = meshes (launch_run lib (take n evs') st')"
    by (simp only: but_airResistance_fields)
  from b m e show "bodies (launch_run lib (take n evs) st) = bodies (launch_run lib (take n evs') st')
           \<and> meshes (launch_run lib (take n evs) st) = meshes (launch_run lib (take n evs') st')
           \<and> but_airResistance (launch_run lib (take n evs) st)
               = but_airResistance (launch_run lib (take n evs') st')"
    by (intro conjI)
qed

text \<open>
  The ball is launched and a frame of a tenth of a second is simulated, once with air
  resistance switched on and once with it switched off.
\<close>

theorem airResistance_no_effect_witness:
  "list_all2 alike [SetAirResistance True, PressLaunch, LaunchFrame (1 / 10)]
                   [SetAirResistance False, PressLaunch, LaunchFrame (1 / 10)]
   \<and> airResistance (settings (launch_run example_cannon
        [SetAirResistance True, PressLaunch, LaunchFrame (1 / 10)] launch_init))
   \<and> \<not> airResistance (settings (launch_run example_cannon
        [SetAirResistance False, PressLaunch, LaunchFrame (1 / 10)] launch_init))
   \<and> bodies (launch_run example_cannon
        [SetAirResistance True, PressLaunch, LaunchFrame (1 / 10)] launch_init)
     = bodies (launch_run example_cannon
        [SetAirResistance False, PressLaunch, LaunchFrame (1 / 10)] launch_init)
   \<and> meshes (launch_run example_cannon
        [SetAirResistance True, PressLaunch, LaunchFrame (1 / 10)] launch_init)
     = meshes (launch_run example_cannon
        [SetAirResistance False, PressLaunch, LaunchFrame (1 / 10)] launch_init)"
proof -
  let ?evs = "[SetAirResistance True, PressLaunch, LaunchFrame (1 / 10)]"
  let ?evs' = "[SetAirResistance False, PressLaunch, LaunchFrame (1 / 10)]"
  have a: "list_all2 alike ?evs ?evs'"
    by simp
  have b: "but_airResistance launch_init = but_airResistance launch_init"
    by simp
  have s: "airResistance (settings (launch_run example_cannon ?evs launch_init))"
    "\<not> airResistance (settings (launch_run example_cannon ?evs' launch_init))"
    by (simp_all add: launch_run_def)
  from airResistance_no_effect [OF a b, of example_cannon, THEN spec, of 3] a s
  show ?thesis by simp
qed

section \<open>The registry and its reset\<close>

lemma reset_object_fields [simp]:
  "world_bodies (reset_object x s) = remove1 (body x) (world_bodies s)"
  "scene_children (reset_object x s) = remove1 (mesh x) (scene_children s)"
  "bodies (reset_object x s) = (bodies s)(body x :=
      (bodies s (body x))\<lparr>body_listeners := remove1 PlayHitSound (body_listeners (bodies s (body x)))\<rparr>)"
  "meshes (reset_object x s) = meshes s"
  "objectsToUpdate (reset_object x t) = objectsToUpdate t"
  by (simp_all add: reset_object_def Let_def)

lemma fold_reset_object_world:
  assumes "distinct (world_bodies s)"
  shows "distinct (world_bodies (fold reset_object xs s))
       \<and> set (world_bodies (fold reset_object xs s)) = set (world_bodies s) - body ` set xs"
  using assms
proof (induction xs arbitrary: s)
  case Nil
  then show ?case by simp
next
  case (Cons x xs)
  have d: "distinct (world_bodies (reset_object x s))"
    using Cons.prems by simp
  have "set (world_bodies (reset_object x s)) = set (world_bodies s) - {body x}"
    using Cons.prems by simp
  with Cons.IH [OF d] show ?case by auto
qed

lemma fold_reset_object_scene:
  assumes "distinct (scene_children s)"
  shows "distinct (scene_children (fold reset_object xs s))
       \<and> set (scene_children (fold reset_object xs s)) = set (scene_children s) - mesh ` set xs"
  using assms
proof (induction xs arbitrary: s)
  case Nil
  then show ?case by simp
next
  case (Cons x xs)
  have d: "distinct (scene_children (reset_object x s))"
    using Cons.prems by simp
  have "set (scene_children (reset_object x s)) = set (scene_children s) - {mesh x}"
    using Cons.prems by simp
  with Cons.IH [OF d] show ?case by auto
qed

lemma fold_reset_object_listeners:
  assumes "\<forall>r. distinct (body_listeners (bodies s r))"
  shows "(\<forall>r. distinct (body_listeners (bodies (fold reset_object xs s) r)))
       \<and> (\<forall>r. set (body_listeners (bodies (fold reset_object xs s) r))
             = (if r \<in> body ` set xs then set (body_listeners (bodies s r)) - {PlayHitSound}
                else set (body_listeners (bodies s r))))"
  using assms
proof (induction xs arbitrary: s)
  case Nil
  then show ?case by simp
next
  case (Cons x xs)
  have d: "\<forall>r. distinct (body_listeners (bodies (reset_object x s) r))"
    using Cons.prems by simp
  have e: "\<And>r. set (body_listeners (bodies (reset_object x s) r))
             = (if r = body x then set (body_listeners (bodies s r)) - {PlayHitSound}
                else set (body_listeners (bodies s r)))"
    using Cons.prems by simp
  from Cons.IH [OF d] Cons.prems show ?case
    by (auto simp add: e)
qed

lemma fold_reset_object_registry [simp]:
  "objectsToUpdate (fold reset_object xs t) = objectsToUpdate t"
  by (induction xs arbitrary: t) simp_all

lemma debugObject_reset_fields:
  "objectsToUpdate (debugObject_reset st) = []"
  "world_bodies (debugObject_reset st) = world_bodies (fold reset_object (objectsToUpdate st) st)"
  "scene_children (debugObject_reset st) = scene_children (fold reset_object (objectsToUpdate st) st)"
  "bodies (debugObject_reset st) = bodies (fold reset_object (objectsToUpdate st) st)"
  by (simp_all add: debugObject_reset_def splice_def Let_def)

subsection \<open>What the script keeps true of the library's lists\<close>

lemma wf_init: "wf (init rs)"
proof -
  have "\<And>r. body_listeners (bodies (init rs) r) = []"
    by (simp add: init_defs)
  then show ?thesis
    by (simp add: wf_def init_fields)
qed

lemma createSphere_lists:
  "body_listeners (bodies (final (createSphere lib radius position st)) r)
     = (if r = next_body st \<and> \<not> Sphere_throws lib radius then [PlayHitSound]
        else body_listeners (bodies st r))"
  "world_bodies (final (createSphere lib radius position st))
     = (if Sphere_throws lib radius \<or> next_body st \<in> set (world_bodies st) then world_bodies st
        else world_bodies st @ [next_body st])"
  by (simp_all add: createSphere_def Let_def split_beta)

lemma createBox_lists:
  "body_listeners (bodies (final (createBox lib width height depth position st)) r)
     = (if r = next_body st \<and> \<not> Box_throws lib (Vec3 (width * 0.5) (height * 0.5) (depth * 0.5))
        then [PlayHitSound] else body_listeners (bodies st r))"
  "world_bodies (final (createBox lib width height depth position st))
     = (if Box_throws lib (Vec3 (width * 0.5) (height * 0.5) (depth * 0.5))
           \<or> next_body st \<in> set (world_bodies st) then world_bodies st
        else world_bodies st @ [next_body st])"
  by (simp_all add: createBox_def Let_def split_beta)

lemma createCylinder_lists:
  "body_listeners (bodies (final (createCylinder lib radius height position st)) r)
     = (if r = next_body st
           \<and> \<not> Cylinder_throws lib (radius * 0.2) (radius * 0.2) (height * 0.5) 32 then []
        else body_listeners (bodies st r))"
  "world_bodies (final (createCylinder lib radius height position st))
     = (if Cylinder_throws lib (radius * 0.2) (radius * 0.2) (height * 0.5) 32
           \<or> next_body st \<in> set (world_bodies st) then world_bodies st
        else world_bodies st @ [next_body st])"
  by (simp_all add: createCylinder_def Let_def split_beta)

lemma distinct_readd: "distinct xs \<Longrightarrow> distinct (remove1 x xs @ [x])"
  by simp

lemma createSphere_wf: "wf st \<Longrightarrow> wf (final (createSphere lib radius position st))"
  by (simp add: wf_def createSphere_lists createSphere_always(1) distinct_readd)

lemma createBox_wf: "wf st \<Longrightarrow> wf (final (createBox lib width height depth position st))"
  by (simp add: wf_def createBox_lists createBox_always(1) distinct_readd)

lemma createCylinder_wf: "wf st \<Longrightarrow> wf (final (createCylinder lib radius height position st))"
  by (simp add: wf_def createCylinder_lists createCylinder_always(1) distinct_readd)

lemma wf_Math_random [simp]: "wf (snd (Math_random st)) = wf st"
  by (simp add: wf_def Math_random_def)

lemma wf_new_object [simp]: "wf (snd (new_object v st)) = wf st"
  by (simp add: wf_def new_object_def)

lemma debugObject_create_wf:
  assumes "wf st"
  shows "wf (final (debugObject_createSphere lib st))"
    and "wf (final (debugObject_createBox lib st))"
    and "wf (final (debugObject_createCylinder lib st))"
  using assms
  by (simp_all add: debugObject_createSphere_def debugObject_createBox_def
      debugObject_createCylinder_def Let_def split_beta
      createSphere_wf createBox_wf createCylinder_wf)

lemma debugObject_reset_wf:
  assumes "wf st"
  shows "wf (debugObject_reset st)"
  using assms fold_reset_object_world [of st "objectsToUpdate st"]
    fold_reset_object_scene [of st "objectsToUpdate st"]
    fold_reset_object_listeners [of st "objectsToUpdate st"]
  by (simp add: wf_def debugObject_reset_fields)

lemma move_listeners [simp]: "body_listeners (move m b) = body_listeners b"
  by (simp add: move_def)

lemma substep_loop_lists:
  "world_bodies (fst (substep_loop n lib dt s)) = world_bodies s
   \<and> scene_children (fst (substep_loop n lib dt s)) = scene_children s
   \<and> (\<forall>r. body_listeners (bodies (fst (substep_loop n lib dt s)) r) = body_listeners (bodies s r))"
proof (induction n arbitrary: s)
  case 0
  show ?case by simp
next
  case (Suc n)
  show ?case
  proof (cases "dt \<le> world_accumulator s")
    case False
    then show ?thesis by simp
  next
    case True
    obtain mv evs where i: "internalStep lib dt (world_bodies s) (bodies s) = (mv, evs)"
      by (cases "internalStep lib dt (world_bodies s) (bodies s)")
    define s1 where "s1 = s\<lparr>bodies := (\<lambda>r. if r \<in> set (world_bodies s)
                                        then move (mv r) (bodies s r) else bodies s r),
                  world_accumulator := world_accumulator s - dt,
                  world_substeps := world_substeps s @ [dt]\<rparr>"
    have a: "fst (substep_loop (Suc n) lib dt s) = fst (substep_loop n lib dt s1)"
      unfolding s1_def by (simp only: substep_loop_Suc [OF True i] fst_conv)
    have "world_bodies s1 = world_bodies s" "scene_children s1 = scene_children s"
      "\<And>r. body_listeners (bodies s1 r) = body_listeners (bodies s r)"
      by (simp_all add: s1_def)
    with Suc.IH [of s1] show ?thesis
      by (simp only: a) simp
  qed
qed

lemma tick_wf: "wf (tick lib elapsedTime st) = wf st"
  by (simp add: wf_def tick_unfold world_step_def substep_loop_lists)

lemma handle_wf: "wf st \<Longrightarrow> wf (handle lib e st)"
  by (cases e) (simp_all add: debugObject_create_wf debugObject_reset_wf tick_wf)

lemma run_wf: "wf st \<Longrightarrow> wf (run lib evs st)"
  unfolding run_def by (induction evs arbitrary: st) (simp_all add: handle_wf)

lemma debugObject_createSphere_registry:
  "objectsToUpdate (final (debugObject_createSphere lib st))
     = (if Sphere_throws lib (random_seq st (random_pos st) * 0.5) then objectsToUpdate st
        else objectsToUpdate st @ [\<lparr>mesh = next_mesh st, body = next_body st\<rparr>])"
  "world_bodies (final (debugObject_createSphere lib st))
     = (if Sphere_throws lib (random_seq st (random_pos st) * 0.5)
           \<or> next_body st \<in> set (world_bodies st) then world_bodies st
        else world_bodies st @ [next_body st])"
  "scene_children (final (debugObject_createSphere lib st))
     = remove1 (next_mesh st) (scene_children st) @ [next_mesh st]"
  "body_shapes (bodies (final (debugObject_createSphere lib st)) (next_body st))
     = (if Sphere_throws lib (random_seq st (random_pos st) * 0.5)
        then body_shapes (bodies st (next_body st))
        else [Sphere (random_seq st (random_pos st) * 0.5)])"
  by (simp_all add: debugObject_createSphere_def createSphere_def Math_random_def new_object_def
      Let_def split_beta)

text \<open>
  Claim C6. In every state the spawning variant can reach, \<open>reset\<close> leaves the registry empty,
  and of every pair that was tracked the body is no longer in the world, the mesh no
  longer in the scene, and \<open>playHitSound\<close> no longer among the body's listeners; the
  world and the scene lose exactly the tracked bodies and meshes.
\<close>

theorem reset_clears:
  "objectsToUpdate (debugObject_reset (run lib evs (init rs))) = []
   \<and> (\<forall>object \<in> set (objectsToUpdate (run lib evs (init rs))).
         body object \<notin> set (world_bodies (debugObject_reset (run lib evs (init rs))))
       \<and> mesh object \<notin> set (scene_children (debugObject_reset (run lib evs (init rs))))
       \<and> PlayHitSound \<notin> set (body_listeners
             (bodies (debugObject_reset (run lib evs (init rs))) (body object))))
   \<and> set (world_bodies (debugObject_reset (run lib evs (init rs))))
       = set (world_bodies (run lib evs (init rs)))
           - body ` set (objectsToUpdate (run lib evs (init rs)))
   \<and> set (scene_children (debugObject_reset (run lib evs (init rs))))
       = set (scene_children (run lib evs (init rs)))
           - mesh ` set (objectsToUpdate (run lib evs (init rs)))"
proof -
  define st where "st = run lib evs (init rs)"
  have w: "wf st"
    unfolding st_def by (rule run_wf) (rule wf_init)
  have wb: "set (world_bodies (debugObject_reset st))
              = set (world_bodies st) - body ` set (objectsToUpdate st)"
    using w fold_reset_object_world [of st "objectsToUpdate st"]
    by (simp add: wf_def debugObject_reset_fields)
  have sc: "set (scene_children (debugObject_reset st))
              = set (scene_children st) - mesh ` set (objectsToUpdate st)"
    using w fold_reset_object_scene [of st "objectsToUpdate st"]
    by (simp add: wf_def debugObject_reset_fields)
  have ls: "\<And>r. r \<in> body ` set (objectsToUpdate st) \<Longrightarrow>
              PlayHitSound \<notin> set (body_listeners (bodies (debugObject_reset st) r))"
    using w fold_reset_object_listeners [of st "objectsToUpdate st"]
    by (simp add: wf_def debugObject_reset_fields)
  have "\<forall>object \<in> set (objectsToUpdate st).
         body object \<notin> set (world_bodies (debugObject_reset st))
       \<and> mesh object \<notin> set (scene_children (debugObject_reset st))
       \<and> PlayHitSound \<notin> set (body_listeners (bodies (debugObject_reset st) (body object)))"
    using wb sc ls by auto
  then show ?thesis
    using wb sc by (simp add: st_def debugObject_reset_fields(1))
qed

lemma example_run_fields:
  "objectsToUpdate (run example_cannon [PressCreateSphere] (init (\<lambda>_. 0)))
     = [\<lparr>mesh = 4, body = 1\<rparr>]"
  "world_bodies (run example_cannon [PressCreateSphere] (init (\<lambda>_. 0))) = [0, 1]"
  "scene_children (run example_cannon [PressCreateSphere] (init (\<lambda>_. 0))) = [0, 1, 2, 3, 4]"
proof -
  have r: "run example_cannon [PressCreateSphere] (init (\<lambda>_. 0))
             = final (debugObject_createSphere example_cannon (init (\<lambda>_. 0)))"
    by (simp add: run_def)
  have t: "\<not> Sphere_throws example_cannon
              (random_seq (init (\<lambda>_. 0)) (random_pos (init (\<lambda>_. 0))) * 0.5)"
    by (simp add: init_fields example_cannon_fields)
  show "objectsToUpdate (run example_cannon [PressCreateSphere] (init (\<lambda>_. 0)))
     = [\<lparr>mesh = 4, body = 1\<rparr>]"
    unfolding r debugObject_createSphere_registry(1) using t by (simp add: init_fields)
  show "world_bodies (run example_cannon [PressCreateSphere] (init (\<lambda>_. 0))) = [0, 1]"
    unfolding r debugObject_createSphere_registry(2) using t by (simp add: init_fields)
  show "scene_children (run example_cannon [PressCreateSphere] (init (\<lambda>_. 0))) = [0, 1, 2, 3, 4]"
    unfolding r debugObject_createSphere_registry(3) by (simp add: init_fields)
qed

text \<open>
  A sphere is spawned from the panel; \<open>reset\<close> then takes its body out of the world
  and its mesh out of the scene, and leaves the floor, the grid, the lights and the
  camera.
\<close>

theorem reset_clears_witness:
  "objectsToUpdate (run example_cannon [PressCreateSphere] (init (\<lambda>_. 0)))
     = [\<lparr>mesh = 4, body = 1\<rparr>]
   \<and> world_bodies (run example_cannon [PressCreateSphere] (init (\<lambda>_. 0))) = [0, 1]
   \<and> scene_children (run example_cannon [PressCreateSphere] (init (\<lambda>_. 0))) = [0, 1, 2, 3, 4]
   \<and> objectsToUpdate (debugObject_reset
         (run example_cannon [PressCreateSphere] (init (\<lambda>_. 0)))) = []
   \<and> set (world_bodies (debugObject_reset
         (run example_cannon [PressCreateSphere] (init (\<lambda>_. 0))))) = {0}
   \<and> set (scene_children (debugObject_reset
         (run example_cannon [PressCreateSphere] (init (\<lambda>_. 0))))) = {0, 1, 2, 3}
   \<and> PlayHitSound \<notin> set (body_listeners (bodies (debugObject_reset
         (run example_cannon [PressCreateSphere] (init (\<lambda>_. 0)))) 1))"
proof -
  define st where "st = run example_cannon [PressCreateSphere] (init (\<lambda>_. 0))"
  have o: "objectsToUpdate st = [\<lparr>mesh = 4, body = 1\<rparr>]"
    and w: "world_bodies st = [0, 1]"
    and s: "scene_children st = [0, 1, 2, 3, 4]"
    unfolding st_def by (rule example_run_fields)+
  have t: "objectsToUpdate (debugObject_reset st) = []
   \<and> (\<forall>object \<in> set (objectsToUpdate st).
         body object \<notin> set (world_bodies (debugObject_reset st))
       \<and> mesh object \<notin> set (scene_children (debugObject_reset st))
       \<and> PlayHitSound \<notin> set (body_listeners (bodies (debugObject_reset st) (body object))))
   \<and> set (world_bodies (debugObject_reset st))
       = set (world_bodies st) - body ` set (objectsToUpdate st)
   \<and> set (scene_children (debugObject_reset st))
       = set (scene_children st) - mesh ` set (objectsToUpdate st)"
    unfolding st_def by (rule reset_clears)
  note t1 = t [THEN conjunct1]
  note t2 = t [THEN conjunct2, THEN conjunct1]
  note t3 = t [THEN conjunct2, THEN conjunct2, THEN conjunct1]
  note t4 = t [THEN conjunct2, THEN conjunct2, THEN conjunct2]
  have "set (world_bodies st) - body ` set (objectsToUpdate st) = {0}"
    by (auto simp add: o w)
  with t3 have a: "set (world_bodies (debugObject_reset st)) = {0}"
    by (rule trans)
  have "set (scene_children st) - mesh ` set (objectsToUpdate st) = {0, 1, 2, 3}"
    by (auto simp add: o s)
  with t4 have b: "set (scene_children (debugObject_reset st)) = {0, 1, 2, 3}"
    by (rule trans)
  have "\<lparr>mesh = 4, body = 1\<rparr> \<in> set (objectsToUpdate st)"
    by (simp add: o)
  with t2 have "PlayHitSound \<notin> set (body_listeners
      (bodies (debugObject_reset st) (body \<lparr>mesh = 4, body = 1\<rparr>)))"
    by blast
  then have c: "PlayHitSound \<notin> set (body_listeners (bodies (debugObject_reset st) 1))"
    by simp
  from t1 a b c o w s show ?thesis
    unfolding st_def by (intro conjI)
qed

section \<open>The sub-steps of a frame, on the bodies\<close>

lemma substep_loop_bodies:
  "bodies (fst (substep_loop n lib dt s))
     = (substep_bodies lib dt (world_bodies s) ^^ substeps_taken n dt (world_accumulator s))
         (bodies s)"
proof (induction n arbitrary: s)
  case 0
  show ?case by simp
next
  case (Suc n)
  show ?case
  proof (cases "dt \<le> world_accumulator s")
    case False
    then show ?thesis by simp
  next
    case True
    obtain mv evs where i: "internalStep lib dt (world_bodies s) (bodies s) = (mv, evs)"
      by (cases "internalStep lib dt (world_bodies s) (bodies s)")
    define s1 where "s1 = s\<lparr>bodies := (\<lambda>r. if r \<in> set (world_bodies s)
                                        then move (mv r) (bodies s r) else bodies s r),
                  world_accumulator := world_accumulator s - dt,
                  world_substeps := world_substeps s @ [dt]\<rparr>"
    have a: "fst (substep_loop (Suc n) lib dt s) = fst (substep_loop n lib dt s1)"
      unfolding s1_def by (simp only: substep_loop_Suc [OF True i] fst_conv)
    have b: "bodies s1 = substep_bodies lib dt (world_bodies s) (bodies s)"
      by (simp add: s1_def substep_bodies_def i cong: if_cong)
    have c: "world_bodies s1 = world_bodies s" "world_accumulator s1 = world_accumulator s - dt"
      by (simp_all add: s1_def)
    have "bodies (fst (substep_loop n lib dt s1))
            = (substep_bodies lib dt (world_bodies s) ^^ substeps_taken n dt (world_accumulator s - dt))
                (substep_bodies lib dt (world_bodies s) (bodies s))"
      using Suc.IH [of s1] by (simp only: b c)
    also have "\<dots> = (substep_bodies lib dt (world_bodies s)
                       ^^ Suc (substeps_taken n dt (world_accumulator s - dt))) (bodies s)"
      by (simp only: funpow_Suc_right o_apply)
    finally show ?thesis
      using True by (simp only: a substeps_taken.simps if_True)
  qed
qed

lemma world_step_bodies:
  "bodies (fst (world_step lib dt elapsed n s))
     = (substep_bodies lib dt (world_bodies s) ^^ substeps_taken n dt (world_accumulator s + elapsed))
         (bodies s)"
  by (simp add: world_step_def substep_loop_bodies)

lemma tick_bodies:
  "bodies (tick lib elapsedTime st)
     = (substep_bodies lib (1 / 60) (world_bodies st)
          ^^ substeps_taken 3 (1 / 60) (world_accumulator st + (elapsedTime - oldElapsedTime st)))
         (bodies st)"
  by (simp add: tick_unfold world_step_bodies)

lemma launch_tick_bodies:
  "bodies (launch_tick lib elapsedTime st)
     = (substep_bodies lib (1 / 80) (world_bodies st)
          ^^ substeps_taken 3 (1 / 80) (world_accumulator st + (elapsedTime - oldElapsedTime st)))
         (bodies st)"
  by (simp add: launch_tick_unfold world_step_bodies)

text \<open>
  Claim C1. Whatever the elapsed time passed in, one call of \<open>step\<close> leaves the bodies
  as \<open>k\<close> sub-steps of size \<open>fixedDelta\<close>, taken one after the other, leave them, where
  \<open>k\<close> is the number of whole \<open>fixedDelta\<close> in the accumulated time, capped: \<open>k\<close> is at
  most \<open>maxSubSteps\<close>. \<open>tick\<close> leaves the bodies as its call of \<open>step\<close> with the fixed
  sub-step size (1/60 in the spawning variant, 1/80 in the launch variant) and the cap
  3 leaves them: after a frame the bodies are those of at most three sub-steps of that
  size, and of nothing else; no body is integrated by the frame's own duration.
\<close>

theorem step_substeps_capped:
  "substeps_taken maxSubSteps fixedDelta (world_accumulator s + elapsedDelta) \<le> maxSubSteps
   \<and> bodies (fst (world_step lib fixedDelta elapsedDelta maxSubSteps s))
       = (substep_bodies lib fixedDelta (world_bodies s)
            ^^ substeps_taken maxSubSteps fixedDelta (world_accumulator s + elapsedDelta)) (bodies s)
   \<and> world_substeps (fst (world_step lib fixedDelta elapsedDelta maxSubSteps s))
       = world_substeps s
           @ replicate (substeps_taken maxSubSteps fixedDelta (world_accumulator s + elapsedDelta))
               fixedDelta
   \<and> bodies (tick lib elapsedTime st)
       = bodies (fst (world_step lib (1 / 60) (elapsedTime - oldElapsedTime st) 3
                        (st\<lparr>oldElapsedTime := elapsedTime\<rparr>)))
   \<and> substeps_taken 3 (1 / 60) (world_accumulator st + (elapsedTime - oldElapsedTime st)) \<le> 3
   \<and> bodies (tick lib elapsedTime st)
       = (substep_bodies lib (1 / 60) (world_bodies st)
            ^^ substeps_taken 3 (1 / 60) (world_accumulator st + (elapsedTime - oldElapsedTime st)))
           (bodies st)
   \<and> world_substeps (tick lib elapsedTime st)
       = world_substeps st
           @ replicate (substeps_taken 3 (1 / 60)
               (world_accumulator st + (elapsedTime - oldElapsedTime st))) (1 / 60)
   \<and> bodies (launch_tick lib elapsedTime lst)
       = bodies (fst (world_step lib (1 / 80) (elapsedTime - oldElapsedTime lst) 3
                        (lst\<lparr>oldElapsedTime := elapsedTime\<rparr>)))
   \<and> substeps_taken 3 (1 / 80) (world_accumulator lst + (elapsedTime - oldElapsedTime lst)) \<le> 3
   \<and> bodies (launch_tick lib elapsedTime lst)
       = (substep_bodies lib (1 / 80) (world_bodies lst)
            ^^ substeps_taken 3 (1 / 80) (world_accumulator lst + (elapsedTime - oldElapsedTime lst)))
           (bodies lst)
   \<and> world_substeps (launch_tick lib elapsedTime lst)
       = world_substeps lst
           @ replicate (substeps_taken 3 (1 / 80)
               (world_accumulator lst + (elapsedTime - oldElapsedTime lst))) (1 / 80)"
proof (intro conjI)
  show "bodies (fst (world_step lib fixedDelta elapsedDelta maxSubSteps s))
       = (substep_bodies lib fixedDelta (world_bodies s)
            ^^ substeps_taken maxSubSteps fixedDelta (world_accumulator s + elapsedDelta)) (bodies s)"
    by (rule world_step_bodies)
  show "world_substeps (fst (world_step lib fixedDelta elapsedDelta maxSubSteps s))
       = world_substeps s
           @ replicate (substeps_taken maxSubSteps fixedDelta (world_accumulator s + elapsedDelta))
               fixedDelta"
    by (rule world_step_log)
  show "bodies (tick lib elapsedTime st)
       = bodies (fst (world_step lib (1 / 60) (elapsedTime - oldElapsedTime st) 3
                        (st\<lparr>oldElapsedTime := elapsedTime\<rparr>)))"
    by (simp add: tick_unfold)
  show "bodies (tick lib elapsedTime st)
       = (substep_bodies lib (1 / 60) (world_bodies st)
            ^^ substeps_taken 3 (1 / 60) (world_accumulator st + (elapsedTime - oldElapsedTime st)))
           (bodies st)"
    by (rule tick_bodies)
  show "world_substeps (tick lib elapsedTime st)
       = world_substeps st
           @ replicate (substeps_taken 3 (1 / 60)
               (world_accumulator st + (elapsedTime - oldElapsedTime st))) (1 / 60)"
    by (rule tick_log)
  show "bodies (launch_tick lib elapsedTime lst)
       = bodies (fst (world_step lib (1 / 80) (elapsedTime - oldElapsedTime lst) 3
                        (lst\<lparr>oldElapsedTime := elapsedTime\<rparr>)))"
    by (simp add: launch_tick_unfold)
  show "bodies (launch_tick lib elapsedTime lst)
       = (substep_bodies lib (1 / 80) (world_bodies lst)
            ^^ substeps_taken 3 (1 / 80) (world_accumulator lst + (elapsedTime - oldElapsedTime lst)))
           (bodies lst)"
    by (rule launch_tick_bodies)
  show "world_substeps (launch_tick lib elapsedTime lst)
       = world_substeps lst
           @ replicate (substeps_taken 3 (1 / 80)
               (world_accumulator lst + (elapsedTime - oldElapsedTime lst))) (1 / 80)"
    by (rule launch_tick_log)
qed (rule substeps_taken_le)+

lemma example_sphere_fields:
  "world_accumulator (final (createSphere example_cannon (1 / 2) 0 example_state)) = 0"
  "oldElapsedTime (final (createSphere example_cannon (1 / 2) 0 example_state)) = 0"
  "world_substeps (final (createSphere example_cannon (1 / 2) 0 example_state)) = []"
  "world_bodies (final (createSphere example_cannon (1 / 2) 0 example_state)) = [0, 1]"
  "body_mass (bodies (final (createSphere example_cannon (1 / 2) 0 example_state)) 1) = 1"
  "body_position (bodies (final (createSphere example_cannon (1 / 2) 0 example_state)) 1)
     = Vec3 0 3 0"
  "body_velocity (bodies (final (createSphere example_cannon (1 / 2) 0 example_state)) 1)
     = Vec3 0 0 0"
proof -
  have n: "\<not> Sphere_throws example_cannon (1 / 2)"
    by (simp add: example_cannon_fields)
  have e: "world_accumulator example_state = 0" "oldElapsedTime example_state = 0"
    "world_substeps example_state = []"
    by (simp_all add: example_state_def new_object_def init_fields)
  show "world_accumulator (final (createSphere example_cannon (1 / 2) 0 example_state)) = 0"
    "oldElapsedTime (final (createSphere example_cannon (1 / 2) 0 example_state)) = 0"
    "world_substeps (final (createSphere example_cannon (1 / 2) 0 example_state)) = []"
    by (simp_all add: createSphere_def Let_def split_beta e)
  show "world_bodies (final (createSphere example_cannon (1 / 2) 0 example_state)) = [0, 1]"
    using n by (simp add: createSphere_lists(2) example_state_fields)
  show "body_mass (bodies (final (createSphere example_cannon (1 / 2) 0 example_state)) 1) = 1"
    "body_position (bodies (final (createSphere example_cannon (1 / 2) 0 example_state)) 1)
       = Vec3 0 3 0"
    "body_velocity (bodies (final (createSphere example_cannon (1 / 2) 0 example_state)) 1)
       = Vec3 0 0 0"
    using createSphere_returned(3) [OF n, where position = 0 and st = example_state]
    by (simp_all add: example_state_fields)
qed

text \<open>One sub-step of the example library on a single body.\<close>

lemma example_substeps_body:
  "(substep_bodies example_cannon dt [0, 1] ^^ k) bs 1
     = ((\<lambda>b. move (free_fall dt b) b) ^^ k) (bs 1)"
proof (induction k arbitrary: bs)
  case 0
  show ?case by simp
next
  case (Suc k)
  have "(substep_bodies example_cannon dt [0, 1] ^^ Suc k) bs 1
          = (substep_bodies example_cannon dt [0, 1] ^^ k)
              (substep_bodies example_cannon dt [0, 1] bs) 1"
    by (simp only: funpow_Suc_right o_apply)
  also have "\<dots> = ((\<lambda>b. move (free_fall dt b) b) ^^ k)
                     (substep_bodies example_cannon dt [0, 1] bs 1)"
    by (rule Suc.IH)
  also have "substep_bodies example_cannon dt [0, 1] bs 1 = move (free_fall dt (bs 1)) (bs 1)"
    by (simp add: substep_bodies_def example_cannon_def)
  finally show ?case
    by (simp only: funpow_Suc_right o_apply)
qed

text \<open>
  A sphere is spawned at \<open>(0, 3, 0)\<close> and the next frame comes after a stall of a
  thousand seconds. The frame takes three sub-steps of 1/60: in the example library
  the sphere has fallen for 3/60 of a second, to the height 89509/30000 with the
  downward speed 491/1000, not for a thousand seconds.
\<close>

theorem step_substeps_capped_witness:
  "world_substeps (tick example_cannon 1000 (final (createSphere example_cannon (1 / 2) 0 example_state)))
     = [1 / 60, 1 / 60, 1 / 60]
   \<and> body_position (bodies
         (tick example_cannon 1000 (final (createSphere example_cannon (1 / 2) 0 example_state))) 1)
       = Vec3 0 (89509 / 30000) 0
   \<and> body_velocity (bodies
         (tick example_cannon 1000 (final (createSphere example_cannon (1 / 2) 0 example_state))) 1)
       = Vec3 0 (- 491 / 1000) 0"
proof -
  define st where "st = final (createSphere example_cannon (1 / 2) 0 example_state)"
  note f = example_sphere_fields [folded st_def]
  have k: "substeps_taken 3 (1 / 60) (world_accumulator st + (1000 - oldElapsedTime st)) = 3"
    by (simp add: f numeral_3_eq_3)
  note t = step_substeps_capped [of 3 "1 / 60" st 1000 example_cannon 1000 st launch_init]
  note t6 = t [THEN conjunct2, THEN conjunct2, THEN conjunct2, THEN conjunct2, THEN conjunct2,
      THEN conjunct1]
  note t7 = t [THEN conjunct2, THEN conjunct2, THEN conjunct2, THEN conjunct2, THEN conjunct2,
      THEN conjunct2, THEN conjunct1]
  from t6 have b: "bodies (tick example_cannon 1000 st)
                    = (substep_bodies example_cannon (1 / 60) (world_bodies st) ^^ 3) (bodies st)"
    by (simp only: k)
  from t7 have l: "world_substeps (tick example_cannon 1000 st)
                    = world_substeps st @ replicate 3 (1 / 60)"
    by (simp only: k)
  define b0 where "b0 = bodies st 1"
  have m: "body_mass b0 = 1" and p0: "body_position b0 = Vec3 0 3 0"
    and v0: "body_velocity b0 = Vec3 0 0 0"
    unfolding b0_def by (rule f)+
  have b1: "bodies (tick example_cannon 1000 st) 1
              = ((\<lambda>b. move (free_fall (1 / 60) b) b) ^^ 3) b0"
    by (simp only: b f(4) example_substeps_body b0_def)
  have "body_position (((\<lambda>b. move (free_fall (1 / 60) b) b) ^^ 3) b0) = Vec3 0 (89509 / 30000) 0"
    by (simp add: numeral_3_eq_3 move_def free_fall_def m p0 v0 Let_def)
  then have p: "body_position (bodies (tick example_cannon 1000 st) 1) = Vec3 0 (89509 / 30000) 0"
    by (simp only: b1)
  have "body_velocity (((\<lambda>b. move (free_fall (1 / 60) b) b) ^^ 3) b0) = Vec3 0 (- 491 / 1000) 0"
    by (simp add: numeral_3_eq_3 move_def free_fall_def m p0 v0 Let_def)
  then have v: "body_velocity (bodies (tick example_cannon 1000 st) 1) = Vec3 0 (- 491 / 1000) 0"
    by (simp only: b1)
  have "world_substeps (tick example_cannon 1000 st) = [1 / 60, 1 / 60, 1 / 60]"
    by (simp add: l f numeral_3_eq_3)
  with p v show ?thesis
    unfolding st_def by (intro conjI)
qed

end
